theory Spec2Isabelle
  imports Main "HOL-Library.Sublist"
begin

section \<open>JavaScript values and strings\<close>

text \<open>
  The two scripts of the repository, \<^verbatim>\<open>src/server.js\<close> (the grouping variant, whose
  lookup is a substring match) and \<^verbatim>\<open>src/unnamed/part_000\<close> (the upload variant, whose
  lookup is an exact match), share the names \<^verbatim>\<open>loadSchedule\<close> and \<^verbatim>\<open>scheduleData\<close>.
  Definitions taken from \<^verbatim>\<open>server.js\<close> carry the suffix \<open>_server\<close>, those taken from
  \<^verbatim>\<open>part_000\<close> the suffix \<open>_upload\<close>; names that occur in one script only are kept.

  A string is a list of code units. \<^typ>\<open>char\<close> has 256 values; they are read as the
  code units U+0000 .. U+00FF, the range on which \<^verbatim>\<open>trim\<close> and \<^verbatim>\<open>toLowerCase\<close> are
  written out below. Strings with code units above U+00FF are outside the model.
\<close>

definition code_unit :: "char \<Rightarrow> nat" where
  "code_unit c = of_char c"

text \<open>\<^verbatim>\<open>String.prototype.trim\<close> strips WhiteSpace and LineTerminator code points: below
  U+0100 these are TAB, LF, VT, FF, CR, SPACE and NO-BREAK SPACE.\<close>

definition isWhiteSpace :: "char \<Rightarrow> bool" where
  "isWhiteSpace c = (code_unit c \<in> {9, 10, 11, 12, 13, 32, 160})"

definition trim :: "string \<Rightarrow> string" where
  "trim s = rev (dropWhile isWhiteSpace (rev (dropWhile isWhiteSpace s)))"

text \<open>\<^verbatim>\<open>String.prototype.toLowerCase\<close>: below U+0100 the letters with a lower-case
  partner are A..Z and U+00C0 .. U+00DE without the multiplication sign U+00D7; the
  partner is 32 code units further on.\<close>

definition lowerChar :: "char \<Rightarrow> char" where
  "lowerChar c =
     (let n = code_unit c in
      if (65 \<le> n \<and> n \<le> 90) \<or> (192 \<le> n \<and> n \<le> 222 \<and> n \<noteq> 215)
      then char_of (n + 32) else c)"

definition toLowerCase :: "string \<Rightarrow> string" where
  "toLowerCase s = map lowerChar s"

text \<open>\<^verbatim>\<open>hay.includes(needle)\<close>: is \<open>needle\<close> a contiguous part of \<open>hay\<close>.\<close>

fun js_includes :: "string \<Rightarrow> string \<Rightarrow> bool" where
  "js_includes [] needle = (needle = [])"
| "js_includes (c # cs) needle = (prefix needle (c # cs) \<or> js_includes cs needle)"

text \<open>
  The values a spreadsheet cell or a property of a row object can hold. The program
  observes a number in two ways only, by its truthiness (every number but 0, -0 and NaN
  is truthy) and by its \<^verbatim>\<open>String()\<close> rendering, so a number is carried as that pair;
  this avoids modelling IEEE doubles and their shortest decimal rendering.
\<close>

datatype jsval =
    JUndefined
  | JNull
  | JBool bool
  | JNum (num_truthy: bool) (num_text: string)
  | JStr string

fun truthy :: "jsval \<Rightarrow> bool" where
  "truthy JUndefined = False"
| "truthy JNull = False"
| "truthy (JBool b) = b"
| "truthy (JNum t s) = t"
| "truthy (JStr s) = (s \<noteq> [])"

text \<open>\<^verbatim>\<open>a || b\<close> and \<^verbatim>\<open>a ?? b\<close>.\<close>

definition js_or :: "jsval \<Rightarrow> jsval \<Rightarrow> jsval" where
  "js_or a b = (if truthy a then a else b)"

definition js_nullish :: "jsval \<Rightarrow> jsval \<Rightarrow> jsval" where
  "js_nullish a b = (if a = JUndefined \<or> a = JNull then b else a)"

text \<open>\<^verbatim>\<open>String(v)\<close>.\<close>

fun js_String :: "jsval \<Rightarrow> string" where
  "js_String JUndefined = ''undefined''"
| "js_String JNull = ''null''"
| "js_String (JBool b) = (if b then ''true'' else ''false'')"
| "js_String (JNum t s) = s"
| "js_String (JStr s) = s"

text \<open>\<^verbatim>\<open>r[i]\<close> on an array: \<^verbatim>\<open>undefined\<close> past the end.\<close>

definition at_index :: "jsval list \<Rightarrow> nat \<Rightarrow> jsval" where
  "at_index r i = (if i < length r then r ! i else JUndefined)"

text \<open>A string has no leading and no trailing whitespace.\<close>

definition is_trimmed :: "string \<Rightarrow> bool" where
  "is_trimmed s = (s = [] \<or> (\<not> isWhiteSpace (hd s) \<and> \<not> isWhiteSpace (last s)))"

text \<open>A value is a string without leading or trailing whitespace.\<close>

definition is_trimmed_string :: "jsval \<Rightarrow> bool" where
  "is_trimmed_string v = (case v of JStr s \<Rightarrow> is_trimmed s | _ \<Rightarrow> False)"

section \<open>Files, exceptions and the console\<close>

text \<open>What is thrown: a rejected \<^verbatim>\<open>fs.stat\<close>, an error of the spreadsheet library (with
  its message), the TypeError of calling a member that is not a function, and
  \<^verbatim>\<open>new Error(message)\<close>.\<close>

datatype js_error =
    ENOENT
  | XlsxError string
  | TypeError
  | Error string

text \<open>
  The spreadsheet library (\<^verbatim>\<open>xlsx\<close>) is not part of the repository. A file on disk is
  carried with what the library makes of it: \<^verbatim>\<open>XLSX.readFile\<close> followed by
  \<^verbatim>\<open>sheet_to_json\<close> on the first sheet either throws or yields the parsed rows. The
  type parameter is the shape \<^verbatim>\<open>sheet_to_json\<close> is asked for: arrays of cells in
  \<^verbatim>\<open>part_000\<close> (\<^verbatim>\<open>{ header: 1, defval: "" }\<close>, one array per sheet row, the header row
  first), row objects keyed by the header cells in \<^verbatim>\<open>server.js\<close>.
\<close>

record 'p disk_file =
  mtime :: nat
  parsed :: "js_error + 'p"

type_synonym 'p filesystem = "string \<Rightarrow> 'p disk_file option"

definition path_join :: "string \<Rightarrow> string \<Rightarrow> string" where
  "path_join d f = d @ ''/'' @ f"

definition existsSync :: "'p filesystem \<Rightarrow> string \<Rightarrow> bool" where
  "existsSync fs p = (fs p \<noteq> None)"

definition stat :: "'p filesystem \<Rightarrow> string \<Rightarrow> js_error + nat" where
  "stat fs p = (case fs p of None \<Rightarrow> Inl ENOENT | Some f \<Rightarrow> Inr (mtime f))"

definition read_rows :: "'p filesystem \<Rightarrow> string \<Rightarrow> js_error + 'p" where
  "read_rows fs p = (case fs p of None \<Rightarrow> Inl ENOENT | Some f \<Rightarrow> parsed f)"

text \<open>The lines the two scripts write to the console, one constructor per call site.\<close>

datatype console_line =
    Log_not_found string
  | Log_loaded_rows nat string
  | Error_failed_to_read js_error
  | Log_no_file_yet
  | Log_empty_or_headers
  | Log_schedule_loaded nat nat
  | Error_failed_to_load js_error
  | Log_file_changed

section \<open>The upload variant: ingestion (\<^verbatim>\<open>part_000\<close>)\<close>

definition UPLOAD_DIR :: string where
  "UPLOAD_DIR = ''uploads''"

definition FILE_PATH :: string where
  "FILE_PATH = path_join UPLOAD_DIR ''schedule.xlsx''"

record row =
  Name :: string
  Day :: string
  Time :: string
  Activity :: string
  Description :: string

record upload_state =
  scheduleData_upload :: "row list"
  lastLoadTime :: "nat option"
  console_upload :: "console_line list"

text \<open>\<^verbatim>\<open>String(r[i] || "").trim()\<close>\<close>

definition cell_text :: "jsval list \<Rightarrow> nat \<Rightarrow> string" where
  "cell_text r i = trim (js_String (js_or (at_index r i) (JStr '''')))"

definition to_row :: "jsval list \<Rightarrow> row" where
  "to_row r =
     \<lparr> Name = cell_text r 0,
       Day = cell_text r 1,
       Time = cell_text r 2,
       Activity = cell_text r 3,
       Description = cell_text r 4 \<rparr>"

text \<open>The body of the \<^verbatim>\<open>try\<close> block of \<^verbatim>\<open>loadSchedule\<close>; \<open>now\<close> is what \<^verbatim>\<open>new Date()\<close>
  returns.\<close>

definition loadSchedule_try :: "jsval list list filesystem \<Rightarrow> nat \<Rightarrow> upload_state \<Rightarrow> js_error + upload_state" where
  "loadSchedule_try fs now st =
     (case stat fs FILE_PATH of
        Inl e \<Rightarrow>
          Inr (st\<lparr> console_upload := console_upload st @ [Log_no_file_yet],
                   scheduleData_upload := [] \<rparr>)
      | Inr stats \<Rightarrow>
          (case read_rows fs FILE_PATH of
             Inl e \<Rightarrow> Inl e
           | Inr rows \<Rightarrow>
               if length rows \<le> 1 then
                 Inr (st\<lparr> scheduleData_upload := [],
                          console_upload := console_upload st @ [Log_empty_or_headers] \<rparr>)
               else
                 let dataRows = drop 1 rows;
                     table = map to_row dataRows
                 in Inr (st\<lparr> scheduleData_upload := table,
                             lastLoadTime := Some now,
                             console_upload :=
                               console_upload st @ [Log_schedule_loaded (length table) now] \<rparr>)))"

definition loadSchedule_upload :: "jsval list list filesystem \<Rightarrow> nat \<Rightarrow> upload_state \<Rightarrow> js_error + upload_state" where
  "loadSchedule_upload fs now st =
     (case loadSchedule_try fs now st of
        Inr st' \<Rightarrow> Inr st'
      | Inl err \<Rightarrow>
          Inr (st\<lparr> console_upload := console_upload st @ [Error_failed_to_load err],
                   scheduleData_upload := [] \<rparr>))"

section \<open>The upload variant: responses and \<^verbatim>\<open>POST /admin/upload\<close>\<close>

text \<open>
  A response is its status and its body. \<open>Sent\<close> is \<^verbatim>\<open>res.send\<close> of a string (which
  Express serves as \<^verbatim>\<open>text/html\<close> unless told otherwise), the two other constructors are
  the objects given to \<^verbatim>\<open>res.json\<close>: \<^verbatim>\<open>{ error }\<close> and
  \<^verbatim>\<open>{ message, entries, uploadedAt }\<close>.
\<close>

datatype body =
    Sent string
  | Json_error string
  | Json_uploaded string nat nat

record response =
  status :: nat
  body :: body

fun message :: "js_error \<Rightarrow> string" where
  "message (Error m) = m"
| "message ENOENT = ''ENOENT: no such file or directory''"
| "message (XlsxError m) = m"
| "message TypeError = ''days[day].push is not a function''"

text \<open>The part of a multipart request that multer hands to the callbacks: the name and
  the content type the client declared, the number of bytes, and the bytes, carried as
  what the spreadsheet library will make of them.\<close>

record upload_file =
  originalname :: string
  mimetype :: string
  size_bytes :: nat
  data :: "js_error + jsval list list"

definition allowed :: "string list" where
  "allowed =
     [''application/vnd.openxmlformats-officedocument.spreadsheetml.sheet'',
      ''application/vnd.ms-excel'']"

definition fileFilter :: "upload_file \<Rightarrow> js_error + bool" where
  "fileFilter f =
     (if mimetype f \<in> set allowed then Inr True
      else Inl (Error ''Only .xlsx and .xls files are allowed!''))"

definition fileSize :: nat where
  "fileSize = 10 * 1024 * 1024"

definition destination :: "upload_file \<Rightarrow> string" where
  "destination f = UPLOAD_DIR"

definition filename :: "upload_file \<Rightarrow> string" where
  "filename f = ''schedule.xlsx''"

text \<open>
  \<^verbatim>\<open>upload.single("file")\<close>. multer is a library, not code of the repository; what it does
  with the configuration above is written out here from its documentation. A request
  without the field leaves \<^verbatim>\<open>req.file\<close> undefined. Otherwise \<^verbatim>\<open>fileFilter\<close> is asked
  first and its error goes to the route's error handler; an accepted file is streamed to
  \<^verbatim>\<open>destination/filename\<close>, and a stream longer than \<^verbatim>\<open>limits.fileSize\<close> is aborted
  with the error \<^verbatim>\<open>File too large\<close>, the partly written file being removed.
\<close>

definition upload_single ::
  "jsval list list filesystem \<Rightarrow> nat \<Rightarrow> upload_file option
     \<Rightarrow> (js_error + upload_file option) \<times> jsval list list filesystem" where
  "upload_single fs now req =
     (case req of
        None \<Rightarrow> (Inr None, fs)
      | Some f \<Rightarrow>
          (case fileFilter f of
             Inl e \<Rightarrow> (Inl e, fs)
           | Inr accept \<Rightarrow>
               if \<not> accept then (Inr None, fs)
               else
                 let p = path_join (destination f) (filename f) in
                 if fileSize < size_bytes f then (Inl (Error ''File too large''), fs(p := None))
                 else (Inr (Some f), fs(p \<mapsto> \<lparr> mtime = now, parsed = data f \<rparr>))))"

text \<open>The route: the handler after multer, and the error handler given as the last
  argument. The third component is the disk after the request.\<close>

definition admin_upload ::
  "jsval list list filesystem \<Rightarrow> nat \<Rightarrow> upload_state \<Rightarrow> upload_file option
     \<Rightarrow> (js_error + response) \<times> upload_state \<times> jsval list list filesystem" where
  "admin_upload fs now st req =
     (case upload_single fs now req of
        (Inl error, fs') \<Rightarrow>
          (Inr \<lparr> status = 400, body = Json_error (message error) \<rparr>, st, fs')
      | (Inr None, fs') \<Rightarrow>
          (Inr \<lparr> status = 400, body = Json_error ''No file uploaded.'' \<rparr>, st, fs')
      | (Inr (Some f), fs') \<Rightarrow>
          (case loadSchedule_upload fs' now st of
             Inl e \<Rightarrow> (Inl e, st, fs')
           | Inr st' \<Rightarrow>
               (Inr \<lparr> status = 200,
                      body = Json_uploaded ''Schedule uploaded and updated successfully!''
                               (length (scheduleData_upload st')) now \<rparr>,
                st', fs')))"

section \<open>The upload variant: \<^verbatim>\<open>GET /schedule\<close>\<close>

text \<open>\<^verbatim>\<open>req.query.name\<close> is absent or a string (the array and object forms that Express
  builds from repeated or bracketed parameters are outside the model).
  \<^verbatim>\<open>(req.query.name || "").toString()\<close>:\<close>

definition query_text :: "string option \<Rightarrow> string" where
  "query_text q = (case q of None \<Rightarrow> '''' | Some s \<Rightarrow> s)"

text \<open>A number in a template literal: its decimal digits.\<close>

fun show_nat :: "nat \<Rightarrow> string" where
  "show_nat n =
     (if n < 10 then [char_of (48 + n)] else show_nat (n div 10) @ [char_of (48 + n mod 10)])"

declare show_nat.simps [simp del]

definition escape :: "string \<Rightarrow> string" where
  \<open>escape str =
     concat (map (\<lambda>c. if c = CHR ''&'' then ''&amp;''
                       else if c = CHR ''<'' then ''&lt;''
                       else if c = CHR ''>'' then ''&gt;''
                       else if c = CHR ''"'' then ''&quot;''
                       else if c = CHR 0x27 then ''&#39;''
                       else [c]) str)\<close>

definition render_tr :: "row \<Rightarrow> string" where
  "render_tr r =
     ''\<newline>    <tr>\<newline>      <td>'' @ escape (Day r) @
     ''</td>\<newline>      <td>'' @ escape (Time r) @
     ''</td>\<newline>      <td>'' @ escape (Activity r) @
     ''</td>\<newline>      <td>'' @ escape (Description r) @
     ''</td>\<newline>    </tr>\<newline>  ''"

definition style_upload :: string where
  "style_upload =
     ''\<newline>    <style>'' @
     ''\<newline>      body { font-family: system-ui, sans-serif; padding: 1rem; }'' @
     ''\<newline>      table { width: 100%; border-collapse: collapse; margin-top: 1rem; }'' @
     ''\<newline>      th, td { border: 1px solid #666; padding: 0.8rem; text-align: left; }'' @
     ''\<newline>      th { background: #f0f0f0; }'' @
     ''\<newline>      tr:nth-child(even) { background: #fafafa; }'' @
     ''\<newline>    </style>''"

text \<open>The page for a non-empty list of matches (\<^verbatim>\<open>matches[0]\<close> is read only then).\<close>

definition html_upload :: "row list \<Rightarrow> string" where
  "html_upload matches =
     (let rows = concat (map render_tr matches) in
      style_upload @
      ''\<newline>    <h2>Schedule for '' @ escape (Name (hd matches)) @ ''</h2>'' @
      ''\<newline>    <p><strong>'' @ show_nat (length matches) @ ''</strong> entr'' @
        (if 1 < length matches then ''ies'' else ''y'') @ '' found.</p>'' @
      ''\<newline>    <table>'' @
      ''\<newline>      <thead><tr>'' @
      ''\<newline>        <th>Day</th>'' @
      ''\<newline>        <th>Time</th>'' @
      ''\<newline>        <th>Activity</th>'' @
      ''\<newline>        <th>Description</th>'' @
      ''\<newline>      </tr></thead>'' @
      ''\<newline>      <tbody>'' @ rows @ ''</tbody>'' @
      ''\<newline>    </table>'' @
      ''\<newline>  '')"

text \<open>The hot reload: \<^verbatim>\<open>fs.stat\<close> rejects when the file is missing, and the \<^verbatim>\<open>catch\<close>
  swallows whatever the block throws.\<close>

definition hot_reload :: "jsval list list filesystem \<Rightarrow> nat \<Rightarrow> upload_state \<Rightarrow> upload_state" where
  "hot_reload fs now st =
     (case stat fs FILE_PATH of
        Inl e \<Rightarrow> st
      | Inr stats_mtime \<Rightarrow>
          (case lastLoadTime st of
             None \<Rightarrow> st
           | Some t \<Rightarrow>
               if t < stats_mtime then
                 let st1 = st\<lparr> console_upload := console_upload st @ [Log_file_changed] \<rparr> in
                 (case loadSchedule_upload fs now st1 of Inl e \<Rightarrow> st1 | Inr st2 \<Rightarrow> st2)
               else st))"

definition not_found_upload :: "string \<Rightarrow> string" where
  \<open>not_found_upload name = ''No schedule found for "'' @ name @ ''".''\<close>

definition schedule_upload ::
  "jsval list list filesystem \<Rightarrow> nat \<Rightarrow> upload_state \<Rightarrow> string option
     \<Rightarrow> (js_error + response) \<times> upload_state" where
  "schedule_upload fs now st q =
     (let name = trim (query_text q) in
      if name = [] then
        (Inr \<lparr> status = 400, body = Sent ''Missing or empty ?name= parameter'' \<rparr>, st)
      else
        let st1 = hot_reload fs now st in
        case (if scheduleData_upload st1 = [] then loadSchedule_upload fs now st1 else Inr st1) of
          Inl e \<Rightarrow> (Inl e, st1)
        | Inr st2 \<Rightarrow>
            if scheduleData_upload st2 = [] then
              (Inr \<lparr> status = 404,
                     body = Sent ''No schedule data available yet. Please upload an Excel file first.'' \<rparr>,
               st2)
            else
              let lowerName = toLowerCase name;
                  matches = filter (\<lambda>row. toLowerCase (Name row) = lowerName)
                              (scheduleData_upload st2)
              in if matches = [] then
                   (Inr \<lparr> status = 404, body = Sent (not_found_upload name) \<rparr>, st2)
                 else
                   (Inr \<lparr> status = 200, body = Sent (html_upload matches) \<rparr>, st2))"

section \<open>The grouping variant (\<^verbatim>\<open>server.js\<close>)\<close>

text \<open>A row is the object \<^verbatim>\<open>sheet_to_json\<close> builds: its own properties in insertion
  order. Reading a property that is not there gives \<^verbatim>\<open>undefined\<close>.\<close>

type_synonym jsobj = "(string \<times> jsval) list"

definition get_prop :: "jsobj \<Rightarrow> string \<Rightarrow> jsval" where
  "get_prop obj k = (case map_of obj k of None \<Rightarrow> JUndefined | Some v \<Rightarrow> v)"

record server_state =
  scheduleData_server :: "jsobj list"
  console_server :: "console_line list"

definition uploadDir :: string where
  "uploadDir = ''uploads''"

definition excelPath :: string where
  "excelPath = path_join uploadDir ''schedule.xlsx''"

definition replaceAll :: "char \<Rightarrow> string \<Rightarrow> string \<Rightarrow> string" where
  "replaceAll c rep s = concat (map (\<lambda>x. if x = c then rep else [x]) s)"

definition escapeHtml :: "jsval \<Rightarrow> string" where
  \<open>escapeHtml v =
     replaceAll (CHR 0x27) ''&#039;''
       (replaceAll (CHR ''"'') ''&quot;''
         (replaceAll (CHR ''>'') ''&gt;''
           (replaceAll (CHR ''<'') ''&lt;''
             (replaceAll (CHR ''&'') ''&amp;''
               (js_String (js_nullish v (JStr '''')))))))\<close>

definition loadSchedule_try_server :: "jsobj list filesystem \<Rightarrow> server_state \<Rightarrow> js_error + server_state" where
  "loadSchedule_try_server fs st =
     (case read_rows fs excelPath of
        Inl e \<Rightarrow> Inl e
      | Inr rows \<Rightarrow>
          Inr (st\<lparr> scheduleData_server := rows,
                   console_server := console_server st @ [Log_loaded_rows (length rows) excelPath] \<rparr>))"

definition loadSchedule_server :: "jsobj list filesystem \<Rightarrow> server_state \<Rightarrow> js_error + server_state" where
  "loadSchedule_server fs st =
     (if \<not> existsSync fs excelPath then
        Inr (st\<lparr> console_server := console_server st @ [Log_not_found excelPath],
                 scheduleData_server := [] \<rparr>)
      else
        case loadSchedule_try_server fs st of
          Inr st' \<Rightarrow> Inr st'
        | Inl err \<Rightarrow>
            Inr (st\<lparr> console_server := console_server st @ [Error_failed_to_read err],
                     scheduleData_server := [] \<rparr>))"

text \<open>\<^verbatim>\<open>req.query.name\<close> as a value.\<close>

definition query_value :: "string option \<Rightarrow> jsval" where
  "query_value q = (case q of None \<Rightarrow> JUndefined | Some s \<Rightarrow> JStr s)"

text \<open>
  The object \<^verbatim>\<open>days\<close> starts as \<^verbatim>\<open>{}\<close>: its own properties are the day labels seen so
  far, in insertion order, and it inherits the members of \<^verbatim>\<open>Object.prototype\<close>. For a
  label that is not an own property yet, \<^verbatim>\<open>days[day]\<close> is \<^verbatim>\<open>undefined\<close> unless the label
  names an inherited member; that member is truthy, so no array is stored, and it has no
  \<^verbatim>\<open>push\<close>, so the call throws a TypeError.
\<close>

definition inherited :: "string list" where
  "inherited =
     [''constructor'', ''__defineGetter__'', ''__defineSetter__'', ''hasOwnProperty'',
      ''__lookupGetter__'', ''__lookupSetter__'', ''isPrototypeOf'', ''propertyIsEnumerable'',
      ''toString'', ''valueOf'', ''__proto__'', ''toLocaleString'']"

definition day_of :: "jsobj \<Rightarrow> string" where
  "day_of row = js_String (js_or (get_prop row ''Day'') (JStr ''Unknown''))"

fun push_to :: "string \<Rightarrow> jsobj \<Rightarrow> (string \<times> jsobj list) list \<Rightarrow> (string \<times> jsobj list) list" where
  "push_to day row [] = []"
| "push_to day row ((k, rows) # days) =
     (if k = day then (k, rows @ [row]) # days else (k, rows) # push_to day row days)"

definition group_step :: "jsobj \<Rightarrow> (string \<times> jsobj list) list \<Rightarrow> js_error + (string \<times> jsobj list) list" where
  "group_step row days =
     (let day = day_of row in
      if day \<in> set (map fst days) then Inr (push_to day row days)
      else if day \<in> set inherited then Inl TypeError
      else Inr (push_to day row (days @ [(day, [])])))"

fun group_rows :: "jsobj list \<Rightarrow> (string \<times> jsobj list) list \<Rightarrow> js_error + (string \<times> jsobj list) list" where
  "group_rows [] days = Inr days"
| "group_rows (row # rows) days =
     (case group_step row days of
        Inl e \<Rightarrow> Inl e
      | Inr days' \<Rightarrow> group_rows rows days')"

text \<open>\<^verbatim>\<open>Object.keys\<close>: the keys that are array indices (canonical decimal numerals below
  \<open>2^32 - 1\<close>) in ascending numeric order, then the other keys in insertion order.\<close>

definition is_digit :: "char \<Rightarrow> bool" where
  "is_digit c = (48 \<le> code_unit c \<and> code_unit c \<le> 57)"

definition index_value :: "string \<Rightarrow> int" where
  "index_value s = foldl (\<lambda>a c. 10 * a + (int (code_unit c) - 48)) 0 s"

definition is_array_index :: "string \<Rightarrow> bool" where
  "is_array_index s =
     (s \<noteq> [] \<and> list_all is_digit s \<and> (length s = 1 \<or> hd s \<noteq> CHR ''0'')
      \<and> index_value s < 2 ^ 32 - 1)"

definition object_keys :: "(string \<times> 'v) list \<Rightarrow> string list" where
  "object_keys obj =
     (let ks = map fst obj in
      sort_key index_value (filter is_array_index ks) @ filter (\<lambda>k. \<not> is_array_index k) ks)"

definition dayOrder :: "string list" where
  "dayOrder = [''Monday'', ''Tuesday'', ''Wednesday'', ''Thursday'', ''Friday'', ''Saturday'', ''Sunday'']"

fun indexOf :: "string list \<Rightarrow> string \<Rightarrow> int" where
  "indexOf [] x = - 1"
| "indexOf (y # ys) x =
     (if x = y then 0 else let i = indexOf ys x in if i < 0 then - 1 else i + 1)"

text \<open>\<^verbatim>\<open>Array.prototype.sort\<close> is stable; with the comparator
  \<^verbatim>\<open>dayOrder.indexOf(a) - dayOrder.indexOf(b)\<close> it is the stable sort by that index.\<close>

definition sortedDays :: "(string \<times> 'v) list \<Rightarrow> string list" where
  "sortedDays days = sort_key (indexOf dayOrder) (object_keys days)"

definition render_row :: "jsobj \<Rightarrow> string" where
  "render_row row =
     ''<tr>\<newline>        <td><strong>'' @ escapeHtml (js_or (get_prop row ''Time'') (JStr '''')) @
     ''</strong></td>\<newline>        <td>'' @ escapeHtml (js_or (get_prop row ''Activity'') (JStr '''')) @
     ''</td>\<newline>        <td>'' @ escapeHtml (js_or (get_prop row ''Description'') (JStr '''')) @
     ''</td>\<newline>        <td>'' @ escapeHtml (js_or (get_prop row ''Location'') (JStr '''')) @
     ''</td>\<newline>      </tr>''"

definition rows_of :: "(string \<times> jsobj list) list \<Rightarrow> string \<Rightarrow> jsobj list" where
  "rows_of days day = (case map_of days day of None \<Rightarrow> [] | Some rows \<Rightarrow> rows)"

definition render_day :: "(string \<times> jsobj list) list \<Rightarrow> string \<Rightarrow> string" where
  \<open>render_day days day =
     ''<h3 style="color: #0066ff; margin: 32px 0 8px;">'' @ escapeHtml (JStr day) @ ''</h3>'' @
     ''<table border="1" cellpadding="10" cellspacing="0" style="border-collapse: collapse; width: 100%; background: #fff;">'' @
     ''\<newline>      <tr><th>Time</th><th>Activity</th><th>Description</th><th>Location</th></tr>'' @
     concat (map render_row (rows_of days day)) @
     ''</table>''\<close>

definition heading_server :: "string \<Rightarrow> string option \<Rightarrow> nat \<Rightarrow> string" where
  \<open>heading_server nameQuery q n =
     (if nameQuery \<noteq> [] then
        ''<h2>Schedule for <strong>'' @ escapeHtml (query_value q) @ ''</strong> ('' @
        show_nat n @ '' shift'' @ (if 1 < n then ''s'' else '''') @ '')</h2>''
      else ''<h2>Full Schedule</h2>'')\<close>

definition footer_server :: string where
  \<open>footer_server =
     ''\<newline>  <hr style="margin: 32px 0;" />'' @
     ''\<newline>  <h3>Event Details</h3>'' @
     ''\<newline>  <iframe src="/pdfviewer" style="width: 100%; height: 800px; border: 1px solid #ddd; border-radius: 8px;" loading="lazy"></iframe>'' @
     ''\<newline>  </div>''\<close>

definition not_found_server :: "string option \<Rightarrow> string" where
  \<open>not_found_server q =
     ''<span class="error">No schedule found for <strong>'' @ escapeHtml (query_value q) @
     ''</strong>.</span>''\<close>

text \<open>\<^verbatim>\<open>String(req.query.name || "").trim().toLowerCase()\<close>\<close>

definition nameQuery_of :: "string option \<Rightarrow> string" where
  "nameQuery_of q = toLowerCase (trim (js_String (js_or (query_value q) (JStr ''''))))"

text \<open>\<^verbatim>\<open>String(row.Name || "")\<close>\<close>

definition name_text :: "jsobj \<Rightarrow> string" where
  "name_text row = js_String (js_or (get_prop row ''Name'') (JStr ''''))"

definition name_matches :: "string \<Rightarrow> jsobj \<Rightarrow> bool" where
  "name_matches nameQuery row = js_includes (toLowerCase (name_text row)) nameQuery"

definition matchingRows :: "jsobj list \<Rightarrow> string \<Rightarrow> jsobj list" where
  "matchingRows table nameQuery =
     (if nameQuery \<noteq> [] then filter (name_matches nameQuery) table else table)"

text \<open>Grouping, sorting and rendering of the selected rows (from \<^verbatim>\<open>// Group by Day\<close>
  to \<^verbatim>\<open>res.type("html").send(html)\<close>). A thrown error is \<open>Inl\<close>; Express answers it
  with status 500.\<close>

definition page_open :: string where
  \<open>page_open = ''<div style="font-family: system-ui, sans-serif;">''\<close>

definition render_page :: "string option \<Rightarrow> string \<Rightarrow> jsobj list \<Rightarrow> js_error + response" where
  "render_page q nameQuery rows =
     (case group_rows rows [] of
        Inl e \<Rightarrow> Inl e
      | Inr days \<Rightarrow>
          Inr \<lparr> status = 200,
                 body = Sent (page_open @
                              heading_server nameQuery q (length rows) @
                              concat (map (render_day days) (sortedDays days)) @
                              footer_server) \<rparr>)"

text \<open>The handler reads \<^verbatim>\<open>scheduleData\<close> and writes nothing: it returns the state it was
  given.\<close>

definition schedule_server ::
  "server_state \<Rightarrow> string option \<Rightarrow> (js_error + response) \<times> server_state" where
  "schedule_server st q =
     (let nameQuery = nameQuery_of q;
          rows = matchingRows (scheduleData_server st) nameQuery
      in if nameQuery \<noteq> [] \<and> rows = [] then
           (Inr \<lparr> status = 404, body = Sent (not_found_server q) \<rparr>, st)
         else (render_page q nameQuery rows, st))"

text \<open>The lines \<^verbatim>\<open>loadSchedule\<close> writes, one per call in either script: counting them in
  the console counts the load attempts.\<close>

fun is_load_line :: "console_line \<Rightarrow> bool" where
  "is_load_line Log_file_changed = False"
| "is_load_line l = True"

definition load_attempts :: "console_line list \<Rightarrow> nat" where
  "load_attempts log = length (filter is_load_line log)"

text \<open>The condition of the hot reload: the file is there, a load time is recorded, and the
  file was modified after it.\<close>

definition file_changed :: "jsval list list filesystem \<Rightarrow> upload_state \<Rightarrow> bool" where
  "file_changed fs st =
     (case stat fs FILE_PATH of
        Inl e \<Rightarrow> False
      | Inr stats_mtime \<Rightarrow>
          (case lastLoadTime st of None \<Rightarrow> False | Some t \<Rightarrow> t < stats_mtime))"

text \<open>The comparisons the specification names: equality and containment up to letter
  case.\<close>

definition equal_ignoring_case :: "string \<Rightarrow> string \<Rightarrow> bool" where
  "equal_ignoring_case a b = (toLowerCase a = toLowerCase b)"

definition contains_ignoring_case :: "string \<Rightarrow> string \<Rightarrow> bool" where
  "contains_ignoring_case hay needle = sublist (toLowerCase needle) (toLowerCase hay)"

text \<open>The five chained replacements of \<^verbatim>\<open>escapeHtml\<close> amount to one pass over the
  characters.\<close>

definition escapeChar :: "char \<Rightarrow> string" where
  \<open>escapeChar c =
     (if c = CHR ''&'' then ''&amp;''
      else if c = CHR ''<'' then ''&lt;''
      else if c = CHR ''>'' then ''&gt;''
      else if c = CHR ''"'' then ''&quot;''
      else if c = CHR 0x27 then ''&#039;''
      else [c])\<close>

text \<open>What the grouping loop maintains: after the rows \<open>seen\<close>, the own properties of
  \<^verbatim>\<open>days\<close> are the distinct labels of those rows, each holding the rows of that label in
  source order.\<close>

definition grouped :: "jsobj list \<Rightarrow> (string \<times> jsobj list) list \<Rightarrow> bool" where
  "grouped seen days \<longleftrightarrow>
     distinct (map fst days) \<and>
     (\<forall>k. map_of days k =
            (if k \<in> day_of ` set seen then Some (filter (\<lambda>r. day_of r = k) seen) else None))"

section \<open>Sample inputs\<close>

text \<open>Concrete disks, tables and requests on which the theorems below are instantiated.\<close>

definition disk_with :: "string \<Rightarrow> nat \<Rightarrow> js_error + 'p \<Rightarrow> 'p filesystem" where
  "disk_with p t content = [p \<mapsto> \<lparr> mtime = t, parsed = content \<rparr>]"

definition sample_sheet :: "jsval list list" where
  "sample_sheet =
     [[JStr ''Name'', JStr ''Day'', JStr ''Time'', JStr ''Activity'', JStr ''Description''],
      [JStr '' Alice '', JStr ''Monday'', JNum True ''9'', JStr ''Shift A'', JStr '''', JStr ''Hall 1''],
      [JStr ''Bob'', JStr ''Tuesday'']]"

definition alice_row :: row where
  "alice_row = \<lparr> Name = ''Alice'', Day = ''Monday'', Time = ''9'', Activity = ''Shift A'', Description = '''' \<rparr>"

definition bob_row :: row where
  "bob_row = \<lparr> Name = ''Bob'', Day = ''Tuesday'', Time = '''', Activity = '''', Description = '''' \<rparr>"

definition upload_state0 :: upload_state where
  "upload_state0 = \<lparr> scheduleData_upload = [bob_row], lastLoadTime = None, console_upload = [] \<rparr>"

definition sample_objects :: "jsobj list" where
  "sample_objects =
     [[(''Name'', JStr '' Alice ''), (''Day'', JStr ''Tuesday''), (''Time'', JNum True ''9'')],
      [(''Name'', JStr ''Bob''), (''Day'', JStr ''Monday''), (''Time'', JStr ''10am'')],
      [(''Name'', JStr ''alice b''), (''Day'', JStr ''Tuesday''), (''Time'', JStr ''1pm'')]]"

definition server_state0 :: server_state where
  "server_state0 = \<lparr> scheduleData_server = sample_objects, console_server = [] \<rparr>"

definition alice_state :: upload_state where
  "alice_state =
     \<lparr> scheduleData_upload = [alice_row, bob_row], lastLoadTime = Some 7, console_upload = [] \<rparr>"

definition constructor_state :: server_state where
  "constructor_state =
     \<lparr> scheduleData_server = [[(''Name'', JStr ''Al''), (''Day'', JStr ''constructor'')]],
       console_server = [] \<rparr>"

definition mixed_days_state :: server_state where
  "mixed_days_state =
     \<lparr> scheduleData_server =
         [[(''Name'', JStr ''Ann''), (''Day'', JStr ''Tuesday'')],
          [(''Name'', JStr ''Bob''), (''Day'', JStr ''Monday'')],
          [(''Name'', JStr ''Cy''), (''Day'', JStr ''constructor'')]],
       console_server = [] \<rparr>"

definition empty_server_state :: server_state where
  "empty_server_state = \<lparr> scheduleData_server = [], console_server = [] \<rparr>"

definition stale_state :: upload_state where
  "stale_state = \<lparr> scheduleData_upload = [], lastLoadTime = Some 7, console_upload = [] \<rparr>"

definition sample_upload :: upload_file where
  "sample_upload =
     \<lparr> originalname = ''rota.xlsx'', mimetype = ''application/vnd.ms-excel'',
       size_bytes = 2048, data = Inr sample_sheet \<rparr>"

section \<open>Properties of the string functions\<close>

lemma last_dropWhile:
  "dropWhile P xs \<noteq> [] \<Longrightarrow> last (dropWhile P xs) = last xs"
  by (induction xs) (auto split: if_splits)

lemma is_trimmed_trim: "is_trimmed (trim s)"
proof (cases "trim s = []")
  case True
  then show ?thesis by (simp add: is_trimmed_def)
next
  case False
  define t where "t = dropWhile isWhiteSpace s"
  define u where "u = dropWhile isWhiteSpace (rev t)"
  have ts: "trim s = rev u" by (simp add: trim_def t_def u_def)
  with False have u: "u \<noteq> []" by simp
  then have t: "t \<noteq> []" by (auto simp: u_def)
  have "\<not> isWhiteSpace (hd u)"
    using u unfolding u_def by (rule hd_dropWhile)
  then have l: "\<not> isWhiteSpace (last (trim s))"
    using u by (simp add: ts last_rev)
  have "last u = last (rev t)"
    using u unfolding u_def by (rule last_dropWhile)
  then have "hd (trim s) = hd t"
    using u t by (simp add: ts hd_rev last_rev)
  moreover have "\<not> isWhiteSpace (hd t)"
    using t unfolding t_def by (rule hd_dropWhile)
  ultimately show ?thesis
    using l by (simp add: is_trimmed_def)
qed

lemma includes_iff: "js_includes hay needle \<longleftrightarrow> (\<exists>p s. hay = p @ needle @ s)"
proof (induction hay)
  case Nil
  then show ?case by auto
next
  case (Cons c cs)
  show ?case
  proof
    assume "js_includes (c # cs) needle"
    then consider "prefix needle (c # cs)" | "js_includes cs needle" by auto
    then show "\<exists>p s. c # cs = p @ needle @ s"
    proof cases
      case 1
      then obtain s where "c # cs = needle @ s" by (auto simp: prefix_def)
      then have "c # cs = [] @ needle @ s" by simp
      then show ?thesis by blast
    next
      case 2
      with Cons.IH obtain p s where "cs = p @ needle @ s" by blast
      then have "c # cs = (c # p) @ needle @ s" by simp
      then show ?thesis by blast
    qed
  next
    assume "\<exists>p s. c # cs = p @ needle @ s"
    then obtain p s where ps: "c # cs = p @ needle @ s" by blast
    show "js_includes (c # cs) needle"
    proof (cases p)
      case Nil
      with ps have "prefix needle (c # cs)" by (simp add: prefix_def)
      then show ?thesis by simp
    next
      case (Cons a p')
      with ps have "cs = p' @ needle @ s" by simp
      with Cons.IH have "js_includes cs needle" by blast
      then show ?thesis by simp
    qed
  qed
qed

section \<open>Ingestion: \<^verbatim>\<open>loadSchedule\<close> in both scripts\<close>

lemma loadSchedule_upload_missing:
  "fs FILE_PATH = None \<Longrightarrow>
   loadSchedule_upload fs now st =
     Inr (st\<lparr> console_upload := console_upload st @ [Log_no_file_yet], scheduleData_upload := [] \<rparr>)"
  by (simp add: loadSchedule_upload_def loadSchedule_try_def stat_def)

lemma loadSchedule_upload_unreadable:
  "fs FILE_PATH = Some f \<Longrightarrow> parsed f = Inl e \<Longrightarrow>
   loadSchedule_upload fs now st =
     Inr (st\<lparr> console_upload := console_upload st @ [Error_failed_to_load e], scheduleData_upload := [] \<rparr>)"
  by (simp add: loadSchedule_upload_def loadSchedule_try_def stat_def read_rows_def)

lemma loadSchedule_upload_short:
  "fs FILE_PATH = Some f \<Longrightarrow> parsed f = Inr rows \<Longrightarrow> length rows \<le> 1 \<Longrightarrow>
   loadSchedule_upload fs now st =
     Inr (st\<lparr> scheduleData_upload := [], console_upload := console_upload st @ [Log_empty_or_headers] \<rparr>)"
  by (simp add: loadSchedule_upload_def loadSchedule_try_def stat_def read_rows_def)

lemma loadSchedule_upload_rows:
  "fs FILE_PATH = Some f \<Longrightarrow> parsed f = Inr rows \<Longrightarrow> 1 < length rows \<Longrightarrow>
   loadSchedule_upload fs now st =
     Inr (st\<lparr> scheduleData_upload := map to_row (drop 1 rows),
              lastLoadTime := Some now,
              console_upload := console_upload st @ [Log_schedule_loaded (length rows - 1) now] \<rparr>)"
  by (simp add: loadSchedule_upload_def loadSchedule_try_def stat_def read_rows_def Let_def)

lemma loadSchedule_upload_cases:
  obtains (missing) "fs FILE_PATH = None"
  | (unreadable) f e where "fs FILE_PATH = Some f" "parsed f = Inl e"
  | (short) f rows where "fs FILE_PATH = Some f" "parsed f = Inr rows" "length rows \<le> 1"
  | (rows) f rows where "fs FILE_PATH = Some f" "parsed f = Inr rows" "1 < length rows"
proof (cases "fs FILE_PATH")
  case None
  then show ?thesis by (rule missing)
next
  case (Some f)
  show ?thesis
  proof (cases "parsed f")
    case (Inl e)
    with Some show ?thesis by (rule unreadable)
  next
    case (Inr rows)
    with Some show ?thesis
      by (cases "length rows \<le> 1") (auto intro: short rows)
  qed
qed

lemma loadSchedule_upload_returns: "\<exists>st'. loadSchedule_upload fs now st = Inr st'"
  by (cases fs rule: loadSchedule_upload_cases)
     (simp_all add: loadSchedule_upload_missing loadSchedule_upload_unreadable
        loadSchedule_upload_short loadSchedule_upload_rows)

lemma loadSchedule_server_missing:
  "fs excelPath = None \<Longrightarrow>
   loadSchedule_server fs st =
     Inr (st\<lparr> console_server := console_server st @ [Log_not_found excelPath], scheduleData_server := [] \<rparr>)"
  by (simp add: loadSchedule_server_def existsSync_def)

lemma loadSchedule_server_unreadable:
  "fs excelPath = Some f \<Longrightarrow> parsed f = Inl e \<Longrightarrow>
   loadSchedule_server fs st =
     Inr (st\<lparr> console_server := console_server st @ [Error_failed_to_read e], scheduleData_server := [] \<rparr>)"
  by (simp add: loadSchedule_server_def loadSchedule_try_server_def existsSync_def read_rows_def)

lemma loadSchedule_server_rows:
  "fs excelPath = Some f \<Longrightarrow> parsed f = Inr rows \<Longrightarrow>
   loadSchedule_server fs st =
     Inr (st\<lparr> scheduleData_server := rows,
              console_server := console_server st @ [Log_loaded_rows (length rows) excelPath] \<rparr>)"
  by (simp add: loadSchedule_server_def loadSchedule_try_server_def existsSync_def read_rows_def)

lemma loadSchedule_server_returns: "\<exists>st'. loadSchedule_server fs st = Inr st'"
proof (cases "fs excelPath")
  case None
  then show ?thesis by (simp add: loadSchedule_server_missing)
next
  case (Some f)
  then show ?thesis
    by (cases "parsed f") (simp_all add: loadSchedule_server_unreadable loadSchedule_server_rows)
qed

text \<open>
  Claim C7. \<^verbatim>\<open>loadSchedule\<close> never throws, in either script: it always returns a state.
  When the spreadsheet file is missing the table is set to the empty list (and a line is
  logged); when the file is there but the spreadsheet library throws on it, the table is
  set to the empty list and the error is written to \<^verbatim>\<open>console.error\<close>. So after every
  failed load the table is exactly \<open>[]\<close>.
\<close>

theorem loadSchedule_never_throws:
  "(\<exists>st'. loadSchedule_server fs st = Inr st' \<and>
      (fs excelPath = None \<longrightarrow>
         scheduleData_server st' = [] \<and>
         console_server st' = console_server st @ [Log_not_found excelPath]) \<and>
      (\<forall>f e. fs excelPath = Some f \<and> parsed f = Inl e \<longrightarrow>
         scheduleData_server st' = [] \<and>
         console_server st' = console_server st @ [Error_failed_to_read e]))
   \<and>
   (\<exists>ut'. loadSchedule_upload gs now ut = Inr ut' \<and>
      (gs FILE_PATH = None \<longrightarrow>
         scheduleData_upload ut' = [] \<and>
         console_upload ut' = console_upload ut @ [Log_no_file_yet]) \<and>
      (\<forall>f e. gs FILE_PATH = Some f \<and> parsed f = Inl e \<longrightarrow>
         scheduleData_upload ut' = [] \<and>
         console_upload ut' = console_upload ut @ [Error_failed_to_load e]))"
proof
  show "\<exists>st'. loadSchedule_server fs st = Inr st' \<and>
      (fs excelPath = None \<longrightarrow>
         scheduleData_server st' = [] \<and>
         console_server st' = console_server st @ [Log_not_found excelPath]) \<and>
      (\<forall>f e. fs excelPath = Some f \<and> parsed f = Inl e \<longrightarrow>
         scheduleData_server st' = [] \<and>
         console_server st' = console_server st @ [Error_failed_to_read e])"
  proof (cases "fs excelPath")
    case None
    then show ?thesis by (simp add: loadSchedule_server_missing)
  next
    case (Some f)
    then show ?thesis
      by (cases "parsed f") (simp_all add: loadSchedule_server_unreadable loadSchedule_server_rows)
  qed
next
  show "\<exists>ut'. loadSchedule_upload gs now ut = Inr ut' \<and>
      (gs FILE_PATH = None \<longrightarrow>
         scheduleData_upload ut' = [] \<and>
         console_upload ut' = console_upload ut @ [Log_no_file_yet]) \<and>
      (\<forall>f e. gs FILE_PATH = Some f \<and> parsed f = Inl e \<longrightarrow>
         scheduleData_upload ut' = [] \<and>
         console_upload ut' = console_upload ut @ [Error_failed_to_load e])"
    by (cases gs rule: loadSchedule_upload_cases)
       (simp_all add: loadSchedule_upload_missing loadSchedule_upload_unreadable
          loadSchedule_upload_short loadSchedule_upload_rows)
qed

theorem loadSchedule_never_throws_witness:
  "(\<exists>st'. loadSchedule_server Map.empty server_state0 = Inr st' \<and>
      scheduleData_server st' = [] \<and> console_server st' = [Log_not_found excelPath])
   \<and>
   (\<exists>ut'. loadSchedule_upload (disk_with FILE_PATH 3 (Inl (XlsxError ''bad zip''))) 7 upload_state0 = Inr ut' \<and>
      scheduleData_upload ut' = [] \<and> console_upload ut' = [Error_failed_to_load (XlsxError ''bad zip'')])"
  using loadSchedule_never_throws [of Map.empty server_state0
          "disk_with FILE_PATH 3 (Inl (XlsxError ''bad zip''))" 7 upload_state0]
  by (simp add: disk_with_def server_state0_def upload_state0_def)

text \<open>
  Claim C3. A spreadsheet of one header row followed by \<open>N\<close> data rows (\<open>N \<ge> 0\<close>), placed
  on disk and parsed by \<^verbatim>\<open>loadSchedule\<close> of \<^verbatim>\<open>part_000\<close>, yields a table of exactly \<open>N\<close>
  entries; uploaded through \<^verbatim>\<open>POST /admin/upload\<close> (as an accepted file) it yields the same,
  and the response reports \<open>N\<close> entries.
\<close>

theorem round_trip_entries:
  "(fs FILE_PATH = Some f \<and> parsed f = Inr (header # rows) \<longrightarrow>
      (\<exists>st'. loadSchedule_upload fs now st = Inr st' \<and>
             length (scheduleData_upload st') = length rows))
   \<and>
   (mimetype u \<in> set allowed \<and> size_bytes u \<le> fileSize \<and> data u = Inr (header # rows) \<longrightarrow>
      (\<exists>st' fs'. admin_upload fs now st (Some u) =
                   (Inr \<lparr> status = 200,
                          body = Json_uploaded ''Schedule uploaded and updated successfully!''
                                   (length rows) now \<rparr>, st', fs') \<and>
                 length (scheduleData_upload st') = length rows))"
proof (intro conjI impI)
  assume a: "fs FILE_PATH = Some f \<and> parsed f = Inr (header # rows)"
  show "\<exists>st'. loadSchedule_upload fs now st = Inr st' \<and>
             length (scheduleData_upload st') = length rows"
  proof (cases rows)
    case Nil
    with a show ?thesis by (simp add: loadSchedule_upload_short)
  next
    case (Cons r rs)
    with a show ?thesis by (simp add: loadSchedule_upload_rows)
  qed
next
  assume a: "mimetype u \<in> set allowed \<and> size_bytes u \<le> fileSize \<and> data u = Inr (header # rows)"
  define fs' where "fs' = fs(FILE_PATH \<mapsto> \<lparr> mtime = now, parsed = data u \<rparr>)"
  have up: "upload_single fs now (Some u) = (Inr (Some u), fs')"
    using a by (simp add: upload_single_def fileFilter_def fs'_def FILE_PATH_def
        destination_def filename_def Let_def)
  have "\<exists>st'. loadSchedule_upload fs' now st = Inr st' \<and>
             length (scheduleData_upload st') = length rows"
  proof (cases rows)
    case Nil
    with a show ?thesis by (simp add: loadSchedule_upload_short [where f="\<lparr> mtime = now, parsed = data u \<rparr>"] fs'_def)
  next
    case (Cons r rs)
    with a show ?thesis by (simp add: loadSchedule_upload_rows [where f="\<lparr> mtime = now, parsed = data u \<rparr>"] fs'_def)
  qed
  then obtain st' where "loadSchedule_upload fs' now st = Inr st'"
    "length (scheduleData_upload st') = length rows" by blast
  then show "\<exists>st' fs'. admin_upload fs now st (Some u) =
                   (Inr \<lparr> status = 200,
                          body = Json_uploaded ''Schedule uploaded and updated successfully!''
                                   (length rows) now \<rparr>, st', fs') \<and>
                 length (scheduleData_upload st') = length rows"
    by (simp add: admin_upload_def up)
qed


theorem round_trip_entries_witness:
  "(\<exists>st'. loadSchedule_upload (disk_with FILE_PATH 3 (Inr sample_sheet)) 7 upload_state0 = Inr st' \<and>
          length (scheduleData_upload st') = 2)
   \<and>
   (\<exists>st' fs'. admin_upload (disk_with FILE_PATH 3 (Inr sample_sheet)) 7 upload_state0 (Some sample_upload) =
                (Inr \<lparr> status = 200,
                       body = Json_uploaded ''Schedule uploaded and updated successfully!'' 2 7 \<rparr>,
                 st', fs') \<and>
              length (scheduleData_upload st') = 2)"
  using round_trip_entries [where fs = "disk_with FILE_PATH 3 (Inr sample_sheet)"
          and f = "\<lparr> mtime = 3, parsed = Inr sample_sheet \<rparr>"
          and header = "hd sample_sheet" and rows = "tl sample_sheet"
          and now = 7 and st = upload_state0 and u = sample_upload]
  by (simp add: disk_with_def sample_sheet_def sample_upload_def allowed_def fileSize_def numeral_2_eq_2)

lemma cell_text_missing:
  "length r \<le> i \<or> r ! i \<in> {JStr '''', JUndefined, JNull} \<Longrightarrow> cell_text r i = ''''"
  by (auto simp: cell_text_def at_index_def js_or_def trim_def)

lemma cell_text_take: "i < n \<Longrightarrow> cell_text (take n r) i = cell_text r i"
  by (simp add: cell_text_def at_index_def)

lemma to_row_take: "to_row (take 5 r) = to_row r"
  by (simp add: to_row_def cell_text_take)

text \<open>
  Claim C10. In \<^verbatim>\<open>part_000\<close>, every row of a parsed table is the record of exactly the
  five fields Name, Day, Time, Activity and Description (the record type \<^typ>\<open>row\<close> has
  no other field, so there is no Location), filled from the first five cells of the sheet
  row. Columns beyond the fifth are discarded: the table is the one obtained from the
  sheet rows cut to five cells. A cell that is missing (past the end of the row), empty,
  \<^verbatim>\<open>null\<close> or \<^verbatim>\<open>undefined\<close> gives the empty string.
\<close>

theorem upload_row_fields:
  "fs FILE_PATH = Some f \<and> parsed f = Inr (header # rows) \<longrightarrow>
     (\<exists>st'. loadSchedule_upload fs now st = Inr st' \<and>
        scheduleData_upload st' =
          map (\<lambda>r. \<lparr> Name = cell_text r 0, Day = cell_text r 1, Time = cell_text r 2,
                      Activity = cell_text r 3, Description = cell_text r 4 \<rparr>) rows \<and>
        scheduleData_upload st' = map to_row (map (take 5) rows) \<and>
        (\<forall>r i. length r \<le> i \<or> r ! i \<in> {JStr '''', JUndefined, JNull} \<longrightarrow> cell_text r i = ''''))"
proof
  assume a: "fs FILE_PATH = Some f \<and> parsed f = Inr (header # rows)"
  have m: "\<forall>r i. length r \<le> i \<or> r ! i \<in> {JStr '''', JUndefined, JNull} \<longrightarrow> cell_text r i = ''''"
    using cell_text_missing by blast
  have t: "map to_row (map (take 5) rows) = map to_row rows"
    by (simp add: to_row_take)
  have d: "map to_row rows =
          map (\<lambda>r. \<lparr> Name = cell_text r 0, Day = cell_text r 1, Time = cell_text r 2,
                      Activity = cell_text r 3, Description = cell_text r 4 \<rparr>) rows"
    by (simp add: to_row_def)
  have "\<exists>st'. loadSchedule_upload fs now st = Inr st' \<and> scheduleData_upload st' = map to_row rows"
  proof (cases rows)
    case Nil
    with a show ?thesis by (simp add: loadSchedule_upload_short)
  next
    case (Cons r rs)
    with a show ?thesis by (simp add: loadSchedule_upload_rows)
  qed
  then obtain st' where "loadSchedule_upload fs now st = Inr st'"
    "scheduleData_upload st' = map to_row rows" by blast
  with m t d show "\<exists>st'. loadSchedule_upload fs now st = Inr st' \<and>
        scheduleData_upload st' =
          map (\<lambda>r. \<lparr> Name = cell_text r 0, Day = cell_text r 1, Time = cell_text r 2,
                      Activity = cell_text r 3, Description = cell_text r 4 \<rparr>) rows \<and>
        scheduleData_upload st' = map to_row (map (take 5) rows) \<and>
        (\<forall>r i. length r \<le> i \<or> r ! i \<in> {JStr '''', JUndefined, JNull} \<longrightarrow> cell_text r i = '''')"
    by simp
qed

lemma sample_table: "map to_row (tl sample_sheet) = [alice_row, bob_row]"
  by code_simp

theorem upload_row_fields_witness:
  "\<exists>st'. loadSchedule_upload (disk_with FILE_PATH 3 (Inr sample_sheet)) 7 upload_state0 = Inr st' \<and>
         scheduleData_upload st' = [alice_row, bob_row]"
proof -
  have h: "disk_with FILE_PATH 3 (Inr sample_sheet) FILE_PATH = Some \<lparr> mtime = 3, parsed = Inr sample_sheet \<rparr>
        \<and> parsed \<lparr> mtime = 3, parsed = Inr sample_sheet \<rparr> = Inr (hd sample_sheet # tl sample_sheet)"
    by (simp add: disk_with_def sample_sheet_def)
  have t: "map to_row (map (take 5) (tl sample_sheet)) = [alice_row, bob_row]"
    by code_simp
  from upload_row_fields [where fs = "disk_with FILE_PATH 3 (Inr sample_sheet)"
          and f = "\<lparr> mtime = 3, parsed = Inr sample_sheet \<rparr>"
          and header = "hd sample_sheet" and rows = "tl sample_sheet"
          and now = 7 and st = upload_state0] h
  obtain st' where "loadSchedule_upload (disk_with FILE_PATH 3 (Inr sample_sheet)) 7 upload_state0 = Inr st'"
    "scheduleData_upload st' = map to_row (map (take 5) (tl sample_sheet))"
    by blast
  with t show ?thesis by simp
qed

lemma to_row_trimmed:
  "is_trimmed (Name (to_row r)) \<and> is_trimmed (Day (to_row r)) \<and> is_trimmed (Time (to_row r)) \<and>
   is_trimmed (Activity (to_row r)) \<and> is_trimmed (Description (to_row r))"
  by (simp add: to_row_def cell_text_def is_trimmed_trim)

lemma loadSchedule_upload_table:
  "loadSchedule_upload fs now st = Inr st' \<Longrightarrow> \<exists>rows. scheduleData_upload st' = map to_row rows"
  by (cases fs rule: loadSchedule_upload_cases)
     (auto simp: loadSchedule_upload_missing loadSchedule_upload_unreadable
        loadSchedule_upload_short loadSchedule_upload_rows)

text \<open>
  Claim C2, as amended. In \<^verbatim>\<open>part_000\<close>, after every call of \<^verbatim>\<open>loadSchedule\<close> each of the
  five fields of each row of the table is a string without leading or trailing whitespace,
  and a truthy numeric cell has become its \<^verbatim>\<open>String()\<close> rendering, trimmed. In
  \<^verbatim>\<open>server.js\<close>, \<^verbatim>\<open>loadSchedule\<close> stores the row objects exactly as the spreadsheet
  library returned them, neither coerced nor trimmed.
\<close>

theorem upload_fields_trimmed:
  "(loadSchedule_upload fs now st = Inr st' \<longrightarrow>
      (\<forall>r \<in> set (scheduleData_upload st').
         is_trimmed (Name r) \<and> is_trimmed (Day r) \<and> is_trimmed (Time r) \<and>
         is_trimmed (Activity r) \<and> is_trimmed (Description r)))
   \<and> (\<forall>r i s. at_index r i = JNum True s \<longrightarrow> cell_text r i = trim s)
   \<and> (gs excelPath = Some g \<and> parsed g = Inr objs \<longrightarrow>
        (\<exists>ss'. loadSchedule_server gs ss = Inr ss' \<and> scheduleData_server ss' = objs))"
proof (intro conjI impI)
  assume "loadSchedule_upload fs now st = Inr st'"
  then obtain rows where "scheduleData_upload st' = map to_row rows"
    using loadSchedule_upload_table by blast
  then show "\<forall>r \<in> set (scheduleData_upload st').
         is_trimmed (Name r) \<and> is_trimmed (Day r) \<and> is_trimmed (Time r) \<and>
         is_trimmed (Activity r) \<and> is_trimmed (Description r)"
    using to_row_trimmed by auto
next
  show "\<forall>r i s. at_index r i = JNum True s \<longrightarrow> cell_text r i = trim s"
    by (simp add: cell_text_def js_or_def)
next
  assume "gs excelPath = Some g \<and> parsed g = Inr objs"
  then show "\<exists>ss'. loadSchedule_server gs ss = Inr ss' \<and> scheduleData_server ss' = objs"
    by (simp add: loadSchedule_server_rows)
qed

theorem upload_fields_trimmed_witness:
  "\<exists>st'. loadSchedule_upload (disk_with FILE_PATH 3 (Inr sample_sheet)) 7 upload_state0 = Inr st' \<and>
         hd (scheduleData_upload st') = alice_row \<and>
         is_trimmed (Name (hd (scheduleData_upload st'))) \<and>
         is_trimmed (Time (hd (scheduleData_upload st')))"
proof -
  let ?fs = "disk_with FILE_PATH 3 (Inr sample_sheet)"
  have "loadSchedule_upload ?fs 7 upload_state0 =
          Inr (upload_state0\<lparr> scheduleData_upload := map to_row (drop 1 sample_sheet),
                 lastLoadTime := Some 7,
                 console_upload := console_upload upload_state0 @ [Log_schedule_loaded (length sample_sheet - 1) 7] \<rparr>)"
    (is "_ = Inr ?st'")
    by (rule loadSchedule_upload_rows [where f = "\<lparr> mtime = 3, parsed = Inr sample_sheet \<rparr>"])
       (simp_all add: disk_with_def sample_sheet_def)
  moreover have t: "scheduleData_upload ?st' = [alice_row, bob_row]"
    using sample_table by (simp add: sample_sheet_def)
  ultimately have "\<forall>r \<in> set [alice_row, bob_row].
         is_trimmed (Name r) \<and> is_trimmed (Day r) \<and> is_trimmed (Time r) \<and>
         is_trimmed (Activity r) \<and> is_trimmed (Description r)"
    using upload_fields_trimmed [of ?fs 7 upload_state0 ?st'] by simp
  then have "is_trimmed (Name alice_row) \<and> is_trimmed (Time alice_row)" by simp
  with \<open>loadSchedule_upload ?fs 7 upload_state0 = Inr ?st'\<close> t show ?thesis by simp
qed

text \<open>The claim as stated, for both scripts, fails on \<^verbatim>\<open>server.js\<close>: a sheet whose Name
  cell is \<^verbatim>\<open>" Alice "\<close> is stored with the blanks (and its numeric Time cell stays a
  number).\<close>

theorem server_fields_not_trimmed:
  "\<not> (\<forall>fs st st'. loadSchedule_server fs st = Inr st' \<longrightarrow>
        (\<forall>r \<in> set (scheduleData_server st'). \<forall>kv \<in> set r. is_trimmed_string (snd kv)))"
proof
  assume a: "\<forall>fs st st'. loadSchedule_server fs st = Inr st' \<longrightarrow>
        (\<forall>r \<in> set (scheduleData_server st'). \<forall>kv \<in> set r. is_trimmed_string (snd kv))"
  let ?fs = "disk_with excelPath 3 (Inr sample_objects)"
  let ?st = "server_state0\<lparr> scheduleData_server := sample_objects,
               console_server := console_server server_state0 @ [Log_loaded_rows (length sample_objects) excelPath] \<rparr>"
  have "loadSchedule_server ?fs server_state0 = Inr ?st"
    by (rule loadSchedule_server_rows [where f = "\<lparr> mtime = 3, parsed = Inr sample_objects \<rparr>"])
       (simp_all add: disk_with_def)
  with a have "\<forall>r \<in> set (scheduleData_server ?st). \<forall>kv \<in> set r. is_trimmed_string (snd kv)"
    by blast
  then have "is_trimmed_string (JStr '' Alice '')"
    by (simp add: sample_objects_def)
  then show False
    by (simp add: is_trimmed_string_def is_trimmed_def isWhiteSpace_def code_unit_def)
qed

section \<open>Grouping by day in \<^verbatim>\<open>server.js\<close>\<close>

lemma map_fst_push_to: "map fst (push_to d r days) = map fst days"
  by (induction days) auto

lemma map_of_push_to:
  "map_of (push_to d r days) k =
     (if k = d then map_option (\<lambda>rs. rs @ [r]) (map_of days d) else map_of days k)"
  by (induction days) auto

lemma grouped_keys: "grouped seen days \<Longrightarrow> set (map fst days) = day_of ` set seen"
proof -
  assume g: "grouped seen days"
  have "set (map fst days) = dom (map_of days)" by (simp add: dom_map_of_conv_image_fst)
  also have "\<dots> = day_of ` set seen"
    using g by (auto simp: grouped_def dom_def split: if_splits)
  finally show ?thesis .
qed

lemma grouped_step:
  assumes "grouped seen days" "group_step row days = Inr days'"
  shows "grouped (seen @ [row]) days'"
proof (cases "day_of row \<in> set (map fst days)")
  case True
  with assms(2) have d: "days' = push_to (day_of row) row days"
    by (simp add: group_step_def Let_def)
  from True assms(1) have "day_of row \<in> day_of ` set seen"
    using grouped_keys by blast
  with assms(1) show ?thesis
    unfolding grouped_def d by (auto simp: map_fst_push_to map_of_push_to)
next
  case False
  with assms(2) have d: "days' = push_to (day_of row) row (days @ [(day_of row, [])])"
    by (auto simp: group_step_def Let_def split: if_splits)
  from False assms(1) have n: "day_of row \<notin> day_of ` set seen"
    using grouped_keys by blast
  then have "\<forall>x \<in> set seen. day_of x \<noteq> day_of row"
    by (metis imageI)
  then have e: "filter (\<lambda>r. day_of r = day_of row) seen = []"
    by (simp add: filter_empty_conv)
  from False have m: "map_of days (day_of row) = None"
    by (simp add: map_of_eq_None_iff)
  from assms(1) False n e m show ?thesis
    unfolding grouped_def d
    by (auto simp: map_fst_push_to map_of_push_to map_add_def split: option.splits)
qed

lemma grouped_rows:
  "grouped seen days \<Longrightarrow> group_rows rows days = Inr days' \<Longrightarrow> grouped (seen @ rows) days'"
proof (induction rows arbitrary: seen days)
  case Nil
  then show ?case by simp
next
  case (Cons row rows)
  from Cons.prems(2) obtain d1 where s: "group_step row days = Inr d1"
    and r: "group_rows rows d1 = Inr days'"
    by (auto split: sum.splits)
  from Cons.prems(1) s have "grouped (seen @ [row]) d1" by (rule grouped_step)
  from Cons.IH [OF this r] show ?case by simp
qed

lemma group_rows_grouped: "group_rows rows [] = Inr days \<Longrightarrow> grouped rows days"
  using grouped_rows [of "[]" "[]" rows days] by (simp add: grouped_def)

text \<open>Grouping throws exactly when some row's label names an inherited member.\<close>

lemma group_step_throws:
  "grouped seen days \<Longrightarrow>
   (\<exists>e. group_step row days = Inl e) \<longleftrightarrow> day_of row \<in> set inherited \<and> day_of row \<notin> day_of ` set seen"
  using grouped_keys [of seen days] by (auto simp: group_step_def Let_def)

lemma group_rows_ok:
  "grouped seen days \<Longrightarrow> \<forall>r \<in> set rows. day_of r \<notin> set inherited \<Longrightarrow>
   \<exists>days'. group_rows rows days = Inr days'"
proof (induction rows arbitrary: seen days)
  case Nil
  then show ?case by simp
next
  case (Cons row rows)
  from Cons.prems have "\<not> (\<exists>e. group_step row days = Inl e)"
    by (simp add: group_step_throws)
  then obtain d1 where s: "group_step row days = Inr d1"
    by (cases "group_step row days") auto
  with Cons.prems(1) have "grouped (seen @ [row]) d1" by (rule grouped_step)
  from Cons.IH [OF this] Cons.prems(2) s show ?case by simp
qed

subsection \<open>Keys and their order\<close>

lemma set_object_keys: "set (object_keys obj) = set (map fst obj)"
  by (auto simp: object_keys_def Let_def)

lemma distinct_object_keys: "distinct (map fst obj) \<Longrightarrow> distinct (object_keys obj)"
  by (auto simp: object_keys_def Let_def)

lemma set_sortedDays: "set (sortedDays days) = set (map fst days)"
  by (simp add: sortedDays_def set_object_keys)

lemma distinct_sortedDays: "distinct (map fst days) \<Longrightarrow> distinct (sortedDays days)"
  by (simp add: sortedDays_def distinct_object_keys)

lemma sorted_sortedDays: "sorted (map (indexOf dayOrder) (sortedDays days))"
  by (simp add: sortedDays_def sorted_sort_key)

lemma sorted_map_before:
  assumes "sorted (map f xs)" "a \<in> set xs" "b \<in> set xs" "f a < f b"
  shows "\<exists>p m s. xs = p @ a # m @ b # s"
proof -
  from assms(2) obtain p t where x: "xs = p @ a # t" by (auto dest: split_list)
  have "b \<in> set t"
  proof (rule ccontr)
    assume "b \<notin> set t"
    with assms(3,4) x have "b \<in> set p" by auto
    with assms(1) x have "f b \<le> f a" by (auto simp: sorted_append)
    with assms(4) show False by simp
  qed
  then obtain m s where "t = m @ b # s" by (auto dest: split_list)
  with x show ?thesis by auto
qed

lemma rows_of_grouped:
  "grouped rows days \<Longrightarrow> d \<in> set (sortedDays days) \<Longrightarrow>
   rows_of days d = filter (\<lambda>r. day_of r = d) rows"
  using grouped_keys [of rows days]
  by (auto simp: rows_of_def grouped_def set_sortedDays)

lemma rendered_rows:
  assumes "grouped rows days"
  shows "set (concat (map (rows_of days) (sortedDays days))) = set rows"
proof -
  have k: "set (sortedDays days) = day_of ` set rows"
    using grouped_keys [OF assms] by (simp add: set_sortedDays)
  have "set (concat (map (rows_of days) (sortedDays days))) =
        (\<Union>d \<in> set (sortedDays days). set (rows_of days d))" by simp
  also have "\<dots> = (\<Union>d \<in> set (sortedDays days). set (filter (\<lambda>r. day_of r = d) rows))"
    using assms by (simp add: rows_of_grouped)
  also have "\<dots> = set rows" unfolding k by auto
  finally show ?thesis .
qed

lemma dayOrder_not_inherited: "d \<in> set dayOrder \<Longrightarrow> d \<notin> set inherited"
  by (auto simp: dayOrder_def inherited_def)

lemma day_of_string: "get_prop r ''Day'' = JStr (c # cs) \<Longrightarrow> day_of r = c # cs"
  by (simp add: day_of_def js_or_def)

text \<open>
  The order of the day groups, for every table and query whose selected rows carry day
  labels that are not names of inherited members of \<^verbatim>\<open>Object.prototype\<close> (the week days
  are not: lemma \<open>dayOrder_not_inherited\<close>): the handler answers 200 with one table per
  day label, rendered in the order \<open>sortedDays\<close>. Each group holds the rows of its label in
  source order, the labels are sorted by their index in the fixed list Monday .. Sunday,
  so a label with a smaller index stands strictly before one with a larger index, and when
  rows with Day "Monday" and rows with Day "Tuesday" are both selected, in whatever source
  order, the label Monday stands before the label Tuesday.
\<close>

lemma day_groups_in_week_order:
  "rows = matchingRows (scheduleData_server st) (nameQuery_of q) \<and>
   (nameQuery_of q = [] \<or> rows \<noteq> []) \<and>
   (\<forall>r \<in> set rows. day_of r \<notin> set inherited) \<longrightarrow>
   (\<exists>days.
      group_rows rows [] = Inr days \<and>
      schedule_server st q =
        (Inr \<lparr> status = 200,
               body = Sent (page_open @ heading_server (nameQuery_of q) q (length rows) @
                            concat (map (render_day days) (sortedDays days)) @ footer_server) \<rparr>,
         st) \<and>
      distinct (sortedDays days) \<and>
      set (sortedDays days) = day_of ` set rows \<and>
      (\<forall>d \<in> set (sortedDays days). rows_of days d = filter (\<lambda>r. day_of r = d) rows) \<and>
      sorted (map (indexOf dayOrder) (sortedDays days)) \<and>
      (\<forall>a b. a \<in> set (sortedDays days) \<and> b \<in> set (sortedDays days) \<and>
             indexOf dayOrder a < indexOf dayOrder b \<longrightarrow>
             (\<exists>p m s. sortedDays days = p @ a # m @ b # s)) \<and>
      ((\<exists>r \<in> set rows. get_prop r ''Day'' = JStr ''Monday'') \<and>
       (\<exists>r \<in> set rows. get_prop r ''Day'' = JStr ''Tuesday'') \<longrightarrow>
       (\<exists>p m s. sortedDays days = p @ ''Monday'' # m @ ''Tuesday'' # s)))"
proof
  assume a: "rows = matchingRows (scheduleData_server st) (nameQuery_of q) \<and>
   (nameQuery_of q = [] \<or> rows \<noteq> []) \<and>
   (\<forall>r \<in> set rows. day_of r \<notin> set inherited)"
  have "grouped [] []" by (simp add: grouped_def)
  with a obtain days where d: "group_rows rows [] = Inr days"
    using group_rows_ok [of "[]" "[]" rows] by blast
  then have g: "grouped rows days" by (rule group_rows_grouped)
  have 1: "schedule_server st q =
        (Inr \<lparr> status = 200,
               body = Sent (page_open @ heading_server (nameQuery_of q) q (length rows) @
                            concat (map (render_day days) (sortedDays days)) @ footer_server) \<rparr>,
         st)"
    using a d by (auto simp: schedule_server_def render_page_def Let_def)
  have 2: "distinct (sortedDays days)"
    using g by (simp add: distinct_sortedDays grouped_def)
  have 3: "set (sortedDays days) = day_of ` set rows"
    using grouped_keys [OF g] by (simp add: set_sortedDays)
  have 4: "\<forall>d \<in> set (sortedDays days). rows_of days d = filter (\<lambda>r. day_of r = d) rows"
    using g by (simp add: rows_of_grouped)
  have 5: "sorted (map (indexOf dayOrder) (sortedDays days))"
    by (rule sorted_sortedDays)
  have 6: "\<forall>a b. a \<in> set (sortedDays days) \<and> b \<in> set (sortedDays days) \<and>
             indexOf dayOrder a < indexOf dayOrder b \<longrightarrow>
             (\<exists>p m s. sortedDays days = p @ a # m @ b # s)"
    using sorted_map_before [OF 5] by blast
  have 7: "(\<exists>r \<in> set rows. get_prop r ''Day'' = JStr ''Monday'') \<and>
       (\<exists>r \<in> set rows. get_prop r ''Day'' = JStr ''Tuesday'') \<longrightarrow>
       (\<exists>p m s. sortedDays days = p @ ''Monday'' # m @ ''Tuesday'' # s)"
  proof
    assume "(\<exists>r \<in> set rows. get_prop r ''Day'' = JStr ''Monday'') \<and>
       (\<exists>r \<in> set rows. get_prop r ''Day'' = JStr ''Tuesday'')"
    then obtain r1 r2 where "r1 \<in> set rows" "day_of r1 = ''Monday''"
      "r2 \<in> set rows" "day_of r2 = ''Tuesday''"
      using day_of_string by blast
    then have "''Monday'' \<in> set (sortedDays days)" "''Tuesday'' \<in> set (sortedDays days)"
      unfolding 3 by force+
    moreover have "indexOf dayOrder ''Monday'' < indexOf dayOrder ''Tuesday''"
      by (simp add: dayOrder_def)
    ultimately show "\<exists>p m s. sortedDays days = p @ ''Monday'' # m @ ''Tuesday'' # s"
      using 6 by blast
  qed
  from d 1 2 3 4 5 6 7 show "\<exists>days.
      group_rows rows [] = Inr days \<and>
      schedule_server st q =
        (Inr \<lparr> status = 200,
               body = Sent (page_open @ heading_server (nameQuery_of q) q (length rows) @
                            concat (map (render_day days) (sortedDays days)) @ footer_server) \<rparr>,
         st) \<and>
      distinct (sortedDays days) \<and>
      set (sortedDays days) = day_of ` set rows \<and>
      (\<forall>d \<in> set (sortedDays days). rows_of days d = filter (\<lambda>r. day_of r = d) rows) \<and>
      sorted (map (indexOf dayOrder) (sortedDays days)) \<and>
      (\<forall>a b. a \<in> set (sortedDays days) \<and> b \<in> set (sortedDays days) \<and>
             indexOf dayOrder a < indexOf dayOrder b \<longrightarrow>
             (\<exists>p m s. sortedDays days = p @ a # m @ b # s)) \<and>
      ((\<exists>r \<in> set rows. get_prop r ''Day'' = JStr ''Monday'') \<and>
       (\<exists>r \<in> set rows. get_prop r ''Day'' = JStr ''Tuesday'') \<longrightarrow>
       (\<exists>p m s. sortedDays days = p @ ''Monday'' # m @ ''Tuesday'' # s))"
    by blast
qed

lemma day_groups_in_week_order_example:
  "\<exists>days. group_rows sample_objects [] = Inr days \<and>
          (\<exists>p m s. sortedDays days = p @ ''Monday'' # m @ ''Tuesday'' # s) \<and>
          fst (schedule_server server_state0 None) =
            Inr \<lparr> status = 200,
                   body = Sent (page_open @ heading_server [] None 3 @
                                concat (map (render_day days) (sortedDays days)) @ footer_server) \<rparr>"
proof -
  have h: "sample_objects = matchingRows (scheduleData_server server_state0) (nameQuery_of None) \<and>
     (nameQuery_of None = [] \<or> sample_objects \<noteq> []) \<and>
     (\<forall>r \<in> set sample_objects. day_of r \<notin> set inherited)"
    by code_simp
  have m: "(\<exists>r \<in> set sample_objects. get_prop r ''Day'' = JStr ''Monday'') \<and>
       (\<exists>r \<in> set sample_objects. get_prop r ''Day'' = JStr ''Tuesday'')"
    by code_simp
  have n: "nameQuery_of None = []" "length sample_objects = 3"
    by code_simp+
  from day_groups_in_week_order [of sample_objects server_state0 None] h m
  obtain days where "group_rows sample_objects [] = Inr days"
    "schedule_server server_state0 None =
        (Inr \<lparr> status = 200,
               body = Sent (page_open @ heading_server (nameQuery_of None) None (length sample_objects) @
                            concat (map (render_day days) (sortedDays days)) @ footer_server) \<rparr>,
         server_state0)"
    "\<exists>p m s. sortedDays days = p @ ''Monday'' # m @ ''Tuesday'' # s"
    by blast
  then show ?thesis by (auto simp: n)
qed

text \<open>
  Claim C8. The page of \<^verbatim>\<open>server.js\<close> must list the Monday group before the Tuesday
  group for every table that holds Monday and Tuesday rows. For the table with a Tuesday
  row, a Monday row and a row whose Day is \<^verbatim>\<open>"constructor"\<close>, in this order, and no name
  in the request, the grouping loop throws a TypeError: no page is rendered, so no Monday
  group is listed before a Tuesday group. The same table without its third row is
  answered with status 200.
\<close>

theorem week_days_with_inherited_day_throws:
  "map (\<lambda>r. get_prop r ''Day'') (scheduleData_server mixed_days_state) =
     [JStr ''Tuesday'', JStr ''Monday'', JStr ''constructor''] \<and>
   schedule_server mixed_days_state None = (Inl TypeError, mixed_days_state) \<and>
   map_sum id status
     (fst (schedule_server
            (mixed_days_state\<lparr> scheduleData_server := take 2 (scheduleData_server mixed_days_state) \<rparr>)
            None)) = Inr 200"
  by code_simp

lemma query_text_of_value: "js_String (js_or (query_value q) (JStr '''')) = query_text q"
  by (cases q) (auto simp: js_or_def query_value_def query_text_def)

lemma nameQuery_of_trim: "nameQuery_of q = toLowerCase (trim (query_text q))"
  by (simp add: nameQuery_of_def query_text_of_value)

lemma nameQuery_empty_iff: "nameQuery_of q = [] \<longleftrightarrow> trim (query_text q) = []"
  by (simp add: nameQuery_of_trim toLowerCase_def)

lemma js_includes_sublist: "js_includes hay needle \<longleftrightarrow> sublist needle hay"
  by (simp add: includes_iff sublist_def)

lemma name_matches_contains:
  "name_matches (nameQuery_of q) row \<longleftrightarrow> contains_ignoring_case (name_text row) (trim (query_text q))"
  by (simp add: name_matches_def contains_ignoring_case_def nameQuery_of_trim js_includes_sublist)

lemma matchingRows_filter:
  "trim (query_text q) \<noteq> [] \<Longrightarrow>
   matchingRows table (nameQuery_of q) =
     filter (\<lambda>r. contains_ignoring_case (name_text r) (trim (query_text q))) table"
proof -
  assume a: "trim (query_text q) \<noteq> []"
  have "name_matches (nameQuery_of q) =
        (\<lambda>r. contains_ignoring_case (name_text r) (trim (query_text q)))"
    by (rule ext) (rule name_matches_contains)
  with a show ?thesis
    by (simp add: matchingRows_def nameQuery_empty_iff)
qed

lemma loadSchedule_upload_projr:
  "loadSchedule_upload fs now st = Inr (projr (loadSchedule_upload fs now st))"
  using loadSchedule_upload_returns [of fs now st] by auto

lemma schedule_upload_lookup:
  assumes "trim (query_text q) \<noteq> []"
  shows "\<exists>resp st'. schedule_upload fs now st q = (Inr resp, st') \<and>
      (let matches = filter (\<lambda>r. equal_ignoring_case (Name r) (trim (query_text q)))
                       (scheduleData_upload st')
       in (matches = [] \<longrightarrow> status resp = 404) \<and>
          (matches \<noteq> [] \<longrightarrow> resp = \<lparr> status = 200, body = Sent (html_upload matches) \<rparr>))"
proof -
  define st1 where "st1 = hot_reload fs now st"
  define st2 where "st2 = (if scheduleData_upload st1 = [] then projr (loadSchedule_upload fs now st1) else st1)"
  have l: "(if scheduleData_upload st1 = [] then loadSchedule_upload fs now st1 else Inr st1) = Inr st2"
    using loadSchedule_upload_projr [of fs now st1] by (simp add: st2_def)
  show ?thesis
  proof (cases "scheduleData_upload st2 = []")
    case True
    with assms l show ?thesis
      by (simp add: schedule_upload_def Let_def st1_def [symmetric])
  next
    case False
    with assms l show ?thesis
      by (simp add: schedule_upload_def Let_def st1_def [symmetric] equal_ignoring_case_def)
  qed
qed

text \<open>
  The matching policy, for a query name that is not empty after trimming: in
  \<^verbatim>\<open>part_000\<close> the rows listed are exactly the rows of the table (as it is when the handler
  filters, after its reloads) whose Name equals the trimmed query up to letter case, and
  the answer is 404 when there is none; in \<^verbatim>\<open>server.js\<close> the rows selected are exactly the
  rows whose Name text contains the trimmed query up to letter case, the answer is the 404
  fragment when there is none, and otherwise whatever the rendering of exactly these rows
  gives: a page whose groups are made of them, or a thrown error.
\<close>

lemma name_matching_policy:
  "trim (query_text q) \<noteq> [] \<longrightarrow>
   (\<exists>resp ut'. schedule_upload fs now ut q = (Inr resp, ut') \<and>
      (let matches = filter (\<lambda>r. equal_ignoring_case (Name r) (trim (query_text q)))
                       (scheduleData_upload ut')
       in (matches = [] \<longrightarrow> status resp = 404) \<and>
          (matches \<noteq> [] \<longrightarrow> resp = \<lparr> status = 200, body = Sent (html_upload matches) \<rparr>)))
   \<and>
   (let matches = filter (\<lambda>r. contains_ignoring_case (name_text r) (trim (query_text q)))
                    (scheduleData_server st)
    in matchingRows (scheduleData_server st) (nameQuery_of q) = matches \<and>
       (matches = [] \<longrightarrow>
          schedule_server st q = (Inr \<lparr> status = 404, body = Sent (not_found_server q) \<rparr>, st)) \<and>
       (matches \<noteq> [] \<longrightarrow>
          schedule_server st q = (render_page q (nameQuery_of q) matches, st)) \<and>
       (\<forall>days. group_rows matches [] = Inr days \<longrightarrow>
          set (concat (map (rows_of days) (sortedDays days))) = set matches))"
proof (intro impI conjI)
  assume a: "trim (query_text q) \<noteq> []"
  then show "\<exists>resp ut'. schedule_upload fs now ut q = (Inr resp, ut') \<and>
      (let matches = filter (\<lambda>r. equal_ignoring_case (Name r) (trim (query_text q)))
                       (scheduleData_upload ut')
       in (matches = [] \<longrightarrow> status resp = 404) \<and>
          (matches \<noteq> [] \<longrightarrow> resp = \<lparr> status = 200, body = Sent (html_upload matches) \<rparr>))"
    by (rule schedule_upload_lookup)
  define matches where
    "matches = filter (\<lambda>r. contains_ignoring_case (name_text r) (trim (query_text q)))
                 (scheduleData_server st)"
  have m: "matchingRows (scheduleData_server st) (nameQuery_of q) = matches"
    using a by (simp add: matchingRows_filter matches_def)
  have n: "nameQuery_of q \<noteq> []"
    using a by (simp add: nameQuery_empty_iff)
  have e: "matches = [] \<longrightarrow>
          schedule_server st q = (Inr \<lparr> status = 404, body = Sent (not_found_server q) \<rparr>, st)"
    using m n by (simp add: schedule_server_def Let_def)
  have r: "matches \<noteq> [] \<longrightarrow>
          schedule_server st q = (render_page q (nameQuery_of q) matches, st)"
    using m n by (simp add: schedule_server_def Let_def)
  have g: "\<forall>days. group_rows matches [] = Inr days \<longrightarrow>
          set (concat (map (rows_of days) (sortedDays days))) = set matches"
    using group_rows_grouped rendered_rows by blast
  from m e r g show "let matches = filter (\<lambda>r. contains_ignoring_case (name_text r) (trim (query_text q)))
                    (scheduleData_server st)
    in matchingRows (scheduleData_server st) (nameQuery_of q) = matches \<and>
       (matches = [] \<longrightarrow>
          schedule_server st q = (Inr \<lparr> status = 404, body = Sent (not_found_server q) \<rparr>, st)) \<and>
       (matches \<noteq> [] \<longrightarrow>
          schedule_server st q = (render_page q (nameQuery_of q) matches, st)) \<and>
       (\<forall>days. group_rows matches [] = Inr days \<longrightarrow>
          set (concat (map (rows_of days) (sortedDays days))) = set matches)"
    unfolding matches_def Let_def by blast
qed

lemma name_matching_policy_example:
  "(\<exists>ut'. schedule_upload Map.empty 9 alice_state (Some '' ALICE '') =
           (Inr \<lparr> status = 200, body = Sent (html_upload [alice_row]) \<rparr>, ut'))
   \<and>
   schedule_server server_state0 (Some ''ALICE'') =
     (render_page (Some ''ALICE'') ''alice'' [sample_objects ! 0, sample_objects ! 2], server_state0)"
proof -
  have h: "trim (query_text (Some '' ALICE '')) \<noteq> []" "trim (query_text (Some ''ALICE'')) \<noteq> []"
    by code_simp+
  have s: "snd (schedule_upload Map.empty 9 alice_state (Some '' ALICE '')) = alice_state"
    by code_simp
  have f: "filter (\<lambda>r. equal_ignoring_case (Name r) (trim (query_text (Some '' ALICE ''))))
             (scheduleData_upload alice_state) = [alice_row]"
    by code_simp
  from name_matching_policy [of "Some '' ALICE ''" Map.empty 9 alice_state server_state0] h(1)
  obtain resp ut' where u: "schedule_upload Map.empty 9 alice_state (Some '' ALICE '') = (Inr resp, ut')"
    and l: "let matches = filter (\<lambda>r. equal_ignoring_case (Name r) (trim (query_text (Some '' ALICE ''))))
                       (scheduleData_upload ut')
       in (matches = [] \<longrightarrow> status resp = 404) \<and>
          (matches \<noteq> [] \<longrightarrow> resp = \<lparr> status = 200, body = Sent (html_upload matches) \<rparr>)"
    by blast
  from u s have "ut' = alice_state" by simp
  with l f have "resp = \<lparr> status = 200, body = Sent (html_upload [alice_row]) \<rparr>"
    by (simp add: Let_def)
  with u have 1: "\<exists>ut'. schedule_upload Map.empty 9 alice_state (Some '' ALICE '') =
           (Inr \<lparr> status = 200, body = Sent (html_upload [alice_row]) \<rparr>, ut')"
    by blast
  have g: "filter (\<lambda>r. contains_ignoring_case (name_text r) (trim (query_text (Some ''ALICE''))))
             (scheduleData_server server_state0) = [sample_objects ! 0, sample_objects ! 2]"
    by code_simp
  have nq: "nameQuery_of (Some ''ALICE'') = ''alice''"
    by code_simp
  from name_matching_policy [of "Some ''ALICE''" Map.empty 9 alice_state server_state0] h(2)
  have "let matches = filter (\<lambda>r. contains_ignoring_case (name_text r) (trim (query_text (Some ''ALICE''))))
                    (scheduleData_server server_state0)
    in (matches \<noteq> [] \<longrightarrow>
          schedule_server server_state0 (Some ''ALICE'') =
            (render_page (Some ''ALICE'') (nameQuery_of (Some ''ALICE'')) matches, server_state0))"
    by (simp add: Let_def)
  with g nq have 2: "schedule_server server_state0 (Some ''ALICE'') =
     (render_page (Some ''ALICE'') ''alice'' [sample_objects ! 0, sample_objects ! 2], server_state0)"
    by (simp add: Let_def)
  from 1 2 show ?thesis by blast
qed

text \<open>
  Claim C1. A row must be returned exactly when its Name matches the query, by equality
  up to letter case in \<^verbatim>\<open>part_000\<close> and by containment up to letter case in
  \<^verbatim>\<open>server.js\<close>. In \<^verbatim>\<open>server.js\<close>, for the table whose only row has Name \<^verbatim>\<open>"Al"\<close> and Day
  \<^verbatim>\<open>"constructor"\<close> and the query \<^verbatim>\<open>al\<close>, the Name contains the query and the filter selects
  the row, but the grouping loop throws a TypeError: the row is not returned.
\<close>

theorem matching_row_inherited_day_throws:
  "scheduleData_server constructor_state = [[(''Name'', JStr ''Al''), (''Day'', JStr ''constructor'')]] \<and>
   trim (query_text (Some ''al'')) = ''al'' \<and>
   contains_ignoring_case ''Al'' ''al'' \<and>
   matchingRows (scheduleData_server constructor_state) (nameQuery_of (Some ''al'')) =
     scheduleData_server constructor_state \<and>
   schedule_server constructor_state (Some ''al'') = (Inl TypeError, constructor_state)"
  by code_simp

section \<open>Answers for an empty name and for an empty table\<close>

lemma empty_name_upload:
  "trim (query_text q) = [] \<Longrightarrow>
   schedule_upload fs now st q =
     (Inr \<lparr> status = 400, body = Sent ''Missing or empty ?name= parameter'' \<rparr>, st)"
  by (simp add: schedule_upload_def)

lemma empty_name_server:
  "trim (query_text q) = [] \<Longrightarrow>
   schedule_server st q = (render_page q [] (scheduleData_server st), st)"
proof -
  assume "trim (query_text q) = []"
  then have "nameQuery_of q = []" by (simp add: nameQuery_empty_iff)
  then show ?thesis by (simp add: schedule_server_def Let_def matchingRows_def)
qed

lemma empty_name_server_all_rows:
  assumes "trim (query_text q) = []" "\<forall>r \<in> set (scheduleData_server st). day_of r \<notin> set inherited"
  shows "\<exists>days resp. schedule_server st q = (Inr resp, st) \<and> status resp = 200 \<and>
           group_rows (scheduleData_server st) [] = Inr days \<and>
           body resp = Sent (page_open @ heading_server [] q (length (scheduleData_server st)) @
                             concat (map (render_day days) (sortedDays days)) @ footer_server) \<and>
           set (concat (map (rows_of days) (sortedDays days))) = set (scheduleData_server st)"
proof -
  have "grouped [] []" by (simp add: grouped_def)
  with assms(2) obtain days where d: "group_rows (scheduleData_server st) [] = Inr days"
    using group_rows_ok [of "[]" "[]" "scheduleData_server st"] by blast
  then have "set (concat (map (rows_of days) (sortedDays days))) = set (scheduleData_server st)"
    using group_rows_grouped rendered_rows by blast
  with d assms(1) show ?thesis
    by (simp add: empty_name_server render_page_def)
qed

text \<open>
  Claim C5. With a missing, empty or blank name, \<^verbatim>\<open>part_000\<close> answers 400 for every state
  (lemma \<open>empty_name_upload\<close>), and \<^verbatim>\<open>server.js\<close> selects the whole table and renders all of
  it whenever no day label names an inherited member of \<^verbatim>\<open>Object.prototype\<close> (lemma
  \<open>empty_name_server_all_rows\<close>). For a table with a row whose Day is \<^verbatim>\<open>"constructor"\<close> the
  grouping loop of \<^verbatim>\<open>server.js\<close> throws a TypeError instead: no row is returned, whether the
  name is missing or blank.
\<close>

theorem empty_name_inherited_day_throws:
  "schedule_server constructor_state None = (Inl TypeError, constructor_state) \<and>
   schedule_server constructor_state (Some ''  '') = (Inl TypeError, constructor_state) \<and>
   scheduleData_server constructor_state \<noteq> []"
  by code_simp

section \<open>Escaping of the error text\<close>

lemma replaceAll_concat: "replaceAll c rep (concat xss) = concat (map (replaceAll c rep) xss)"
  by (induction xss) (simp_all add: replaceAll_def)

lemma escapeHtml_one_pass:
  "escapeHtml v = concat (map escapeChar (js_String (js_nullish v (JStr ''''))))"
proof -
  have "\<And>s. replaceAll (CHR 0x27) ''&#039;''
       (replaceAll (CHR 0x22) ''&quot;''
         (replaceAll (CHR ''>'') ''&gt;''
           (replaceAll (CHR ''<'') ''&lt;''
             (replaceAll (CHR ''&'') ''&amp;'' s)))) = concat (map escapeChar s)"
  proof -
    fix s show "replaceAll (CHR 0x27) ''&#039;''
       (replaceAll (CHR 0x22) ''&quot;''
         (replaceAll (CHR ''>'') ''&gt;''
           (replaceAll (CHR ''<'') ''&lt;''
             (replaceAll (CHR ''&'') ''&amp;'' s)))) = concat (map escapeChar s)"
      by (induction s) (simp_all add: replaceAll_def escapeChar_def)
  qed
  then show ?thesis by (simp add: escapeHtml_def)
qed

lemma escapeHtml_no_raw:
  "c \<in> set (escapeHtml v) \<Longrightarrow> c \<noteq> CHR ''<'' \<and> c \<noteq> CHR ''>'' \<and> c \<noteq> CHR 0x22 \<and> c \<noteq> CHR 0x27"
  by (auto simp: escapeHtml_one_pass escapeChar_def split: if_splits)

lemma not_found_server_escaped:
  "\<exists>pre post. not_found_server q = pre @ escapeHtml (query_value q) @ post"
  unfolding not_found_server_def by (metis append.assoc)

text \<open>
  Claim C4. A name that matches no row gets a 404 whose text must carry the name escaped.
  \<^verbatim>\<open>server.js\<close> does so (lemmas \<open>not_found_server_escaped\<close>, \<open>escapeHtml_no_raw\<close>).
  \<^verbatim>\<open>part_000\<close> puts the trimmed name into the text as it is: for the name \<^verbatim>\<open><b>\<close> the
  body, sent as \<^verbatim>\<open>text/html\<close>, holds a raw less-than sign and does not hold the escaped
  form, although the same handler escapes the row data of its 200 page.
\<close>

theorem not_found_upload_unescaped:
  "schedule_upload Map.empty 9 alice_state (Some ''<b>'') =
     (Inr \<lparr> status = 404, body = Sent (''No schedule found for '' @ [CHR 0x22] @ ''<b>'' @ [CHR 0x22] @ ''.'') \<rparr>,
      alice_state) \<and>
   CHR ''<'' \<in> set (not_found_upload ''<b>'') \<and>
   escape ''<b>'' = ''&lt;b&gt;'' \<and>
   \<not> sublist (escape ''<b>'') (not_found_upload ''<b>'')"
  by code_simp

section \<open>Reloads during \<^verbatim>\<open>GET /schedule\<close>\<close>

lemma load_attempts_append [simp]:
  "load_attempts (xs @ ys) = load_attempts xs + load_attempts ys"
  by (simp add: load_attempts_def)

lemma loadSchedule_upload_attempt:
  "loadSchedule_upload fs now st = Inr st' \<Longrightarrow>
   load_attempts (console_upload st') = load_attempts (console_upload st) + 1"
  by (cases fs rule: loadSchedule_upload_cases)
     (auto simp: loadSchedule_upload_missing loadSchedule_upload_unreadable
        loadSchedule_upload_short loadSchedule_upload_rows load_attempts_def)

lemma loadSchedule_upload_same_table:
  "loadSchedule_upload fs now st = Inr a \<Longrightarrow> loadSchedule_upload fs now' st' = Inr b \<Longrightarrow>
   scheduleData_upload a = scheduleData_upload b"
  by (cases fs rule: loadSchedule_upload_cases)
     (auto simp: loadSchedule_upload_missing loadSchedule_upload_unreadable
        loadSchedule_upload_short loadSchedule_upload_rows)

lemma hot_reload_unchanged: "\<not> file_changed fs st \<Longrightarrow> hot_reload fs now st = st"
  by (auto simp: hot_reload_def file_changed_def split: sum.splits option.splits)

lemma hot_reload_changed:
  "file_changed fs st \<Longrightarrow>
   loadSchedule_upload fs now
     (st\<lparr> console_upload := console_upload st @ [Log_file_changed] \<rparr>) = Inr (hot_reload fs now st)"
  using loadSchedule_upload_returns
    [of fs now "st\<lparr> console_upload := console_upload st @ [Log_file_changed] \<rparr>"]
  by (auto simp: hot_reload_def file_changed_def Let_def split: sum.splits option.splits)

lemma hot_reload_attempts:
  "load_attempts (console_upload (hot_reload fs now st)) =
     load_attempts (console_upload st) + (if file_changed fs st then 1 else 0)"
proof (cases "file_changed fs st")
  case True
  from loadSchedule_upload_attempt [OF hot_reload_changed [OF True]]
  show ?thesis using True by (simp add: load_attempts_def)
next
  case False
  then show ?thesis by (simp add: hot_reload_unchanged)
qed

lemma schedule_server_state: "snd (schedule_server st q) = st"
  by (simp add: schedule_server_def Let_def)

lemma schedule_upload_empty_table:
  assumes n: "trim (query_text q) \<noteq> []" and e: "scheduleData_upload ut = []"
  shows "\<exists>resp ut'. schedule_upload fs now ut q = (Inr resp, ut') \<and>
           load_attempts (console_upload ut') =
             load_attempts (console_upload ut) +
               (if file_changed fs ut \<and> scheduleData_upload ut' = [] then 2 else 1) \<and>
           (scheduleData_upload ut' = [] \<longrightarrow>
              resp = \<lparr> status = 404,
                       body = Sent ''No schedule data available yet. Please upload an Excel file first.'' \<rparr>)"
proof -
  define st1 where "st1 = hot_reload fs now ut"
  obtain r where r: "loadSchedule_upload fs now st1 = Inr r"
    using loadSchedule_upload_returns by blast
  have ra: "load_attempts (console_upload r) = load_attempts (console_upload st1) + 1"
    using r by (rule loadSchedule_upload_attempt)
  have h: "load_attempts (console_upload st1) =
     load_attempts (console_upload ut) + (if file_changed fs ut then 1 else 0)"
    unfolding st1_def by (rule hot_reload_attempts)
  show ?thesis
  proof (cases "scheduleData_upload st1 = []")
    case True
    have t: "file_changed fs ut \<Longrightarrow> scheduleData_upload r = []"
    proof -
      assume "file_changed fs ut"
      then have "loadSchedule_upload fs now
         (ut\<lparr> console_upload := console_upload ut @ [Log_file_changed] \<rparr>) = Inr st1"
        unfolding st1_def by (rule hot_reload_changed)
      from loadSchedule_upload_same_table [OF this r] True show ?thesis by simp
    qed
    show ?thesis
    proof (cases "scheduleData_upload r = []")
      case True
      with n \<open>scheduleData_upload st1 = []\<close> r ra h show ?thesis
        by (simp add: schedule_upload_def Let_def st1_def [symmetric])
    next
      case False
      with t have "\<not> file_changed fs ut" by blast
      with False n \<open>scheduleData_upload st1 = []\<close> r ra h show ?thesis
        by (simp add: schedule_upload_def Let_def st1_def [symmetric])
    qed
  next
    case False
    have c: "file_changed fs ut"
    proof (rule ccontr)
      assume "\<not> file_changed fs ut"
      then have "st1 = ut" unfolding st1_def by (rule hot_reload_unchanged)
      with e False show False by simp
    qed
    with False n h show ?thesis
      by (simp add: schedule_upload_def Let_def st1_def [symmetric])
  qed
qed

text \<open>The two reload steps of the handler, for a name that is not blank: the hot reload,
  then the reload of the emptiness check.\<close>

lemma schedule_upload_reload_steps:
  assumes n: "trim (query_text q) \<noteq> []"
  shows "\<exists>resp ut'. schedule_upload fs now ut q = (Inr resp, ut') \<and>
           (if file_changed fs ut
            then loadSchedule_upload fs now
                   (ut\<lparr> console_upload := console_upload ut @ [Log_file_changed] \<rparr>) =
                 Inr (hot_reload fs now ut)
            else hot_reload fs now ut = ut) \<and>
           (if scheduleData_upload (hot_reload fs now ut) = []
            then loadSchedule_upload fs now (hot_reload fs now ut) = Inr ut' \<and>
                 (scheduleData_upload ut' = [] \<longrightarrow>
                    resp = \<lparr> status = 404,
                             body = Sent ''No schedule data available yet. Please upload an Excel file first.'' \<rparr>)
            else ut' = hot_reload fs now ut) \<and>
           load_attempts (console_upload ut') =
             load_attempts (console_upload ut) +
               (if file_changed fs ut then 1 else 0) +
               (if scheduleData_upload (hot_reload fs now ut) = [] then 1 else 0)"
proof -
  define st1 where "st1 = hot_reload fs now ut"
  have h: "if file_changed fs ut
            then loadSchedule_upload fs now
                   (ut\<lparr> console_upload := console_upload ut @ [Log_file_changed] \<rparr>) = Inr st1
            else st1 = ut"
    unfolding st1_def by (simp add: hot_reload_changed hot_reload_unchanged)
  have a: "load_attempts (console_upload st1) =
     load_attempts (console_upload ut) + (if file_changed fs ut then 1 else 0)"
    unfolding st1_def by (rule hot_reload_attempts)
  show ?thesis
  proof (cases "scheduleData_upload st1 = []")
    case True
    obtain r where r: "loadSchedule_upload fs now st1 = Inr r"
      using loadSchedule_upload_returns by blast
    have ra: "load_attempts (console_upload r) = load_attempts (console_upload st1) + 1"
      using r by (rule loadSchedule_upload_attempt)
    show ?thesis
    proof (cases "scheduleData_upload r = []")
      case e: True
      with n True r ra a h show ?thesis
        by (simp add: schedule_upload_def Let_def st1_def [symmetric])
    next
      case ne: False
      with n True r ra a h show ?thesis
        by (simp add: schedule_upload_def Let_def st1_def [symmetric])
    qed
  next
    case False
    with n a h show ?thesis
      by (simp add: schedule_upload_def Let_def st1_def [symmetric])
  qed
qed

text \<open>
  Claim C6, as amended. In \<^verbatim>\<open>part_000\<close>, for a name that is not blank, the handler first
  does its hot reload: it calls \<^verbatim>\<open>loadSchedule\<close> once when the file is there, a load time
  is recorded and the file is newer than it, and makes no call otherwise. Then, at its
  emptiness check, it calls \<^verbatim>\<open>loadSchedule\<close> exactly once when the table is empty at that
  point, answering the "no data" 404 when the table is still empty afterwards, and makes
  no call when the table is not empty at that point (as after a hot reload that found
  rows). So a handling makes as many load attempts as these two steps ran; for a table
  that is empty when the request arrives it makes one, or two when the hot reload ran and
  the table is still empty at the end. For a blank name it answers 400 and leaves the
  state as it was. In \<^verbatim>\<open>server.js\<close> the handler never reloads: it returns the state it was
  given, and for an empty table and a name that is not blank it answers 404 from the table
  as it is.
\<close>

theorem reload_on_empty_table:
  "(trim (query_text q) \<noteq> [] \<and> scheduleData_upload ut = [] \<longrightarrow>
      (\<exists>resp ut'. schedule_upload fs now ut q = (Inr resp, ut') \<and>
         load_attempts (console_upload ut') =
           load_attempts (console_upload ut) +
             (if file_changed fs ut \<and> scheduleData_upload ut' = [] then 2 else 1) \<and>
         (scheduleData_upload ut' = [] \<longrightarrow>
            resp = \<lparr> status = 404,
                     body = Sent ''No schedule data available yet. Please upload an Excel file first.'' \<rparr>)))
   \<and>
   (trim (query_text q) = [] \<longrightarrow>
      schedule_upload fs now ut q =
        (Inr \<lparr> status = 400, body = Sent ''Missing or empty ?name= parameter'' \<rparr>, ut))
   \<and>
   snd (schedule_server st q) = st
   \<and>
   (trim (query_text q) \<noteq> [] \<and> scheduleData_server st = [] \<longrightarrow>
      schedule_server st q = (Inr \<lparr> status = 404, body = Sent (not_found_server q) \<rparr>, st))
   \<and>
   (trim (query_text q) \<noteq> [] \<longrightarrow>
      (\<exists>resp ut'. schedule_upload fs now ut q = (Inr resp, ut') \<and>
         (if file_changed fs ut
          then loadSchedule_upload fs now
                 (ut\<lparr> console_upload := console_upload ut @ [Log_file_changed] \<rparr>) =
               Inr (hot_reload fs now ut)
          else hot_reload fs now ut = ut) \<and>
         (if scheduleData_upload (hot_reload fs now ut) = []
          then loadSchedule_upload fs now (hot_reload fs now ut) = Inr ut' \<and>
               (scheduleData_upload ut' = [] \<longrightarrow>
                  resp = \<lparr> status = 404,
                           body = Sent ''No schedule data available yet. Please upload an Excel file first.'' \<rparr>)
          else ut' = hot_reload fs now ut) \<and>
         load_attempts (console_upload ut') =
           load_attempts (console_upload ut) +
             (if file_changed fs ut then 1 else 0) +
             (if scheduleData_upload (hot_reload fs now ut) = [] then 1 else 0)))"
proof (intro conjI impI)
  assume "trim (query_text q) \<noteq> [] \<and> scheduleData_upload ut = []"
  then show "\<exists>resp ut'. schedule_upload fs now ut q = (Inr resp, ut') \<and>
         load_attempts (console_upload ut') =
           load_attempts (console_upload ut) +
             (if file_changed fs ut \<and> scheduleData_upload ut' = [] then 2 else 1) \<and>
         (scheduleData_upload ut' = [] \<longrightarrow>
            resp = \<lparr> status = 404,
                     body = Sent ''No schedule data available yet. Please upload an Excel file first.'' \<rparr>)"
    using schedule_upload_empty_table by blast
next
  assume "trim (query_text q) = []"
  then show "schedule_upload fs now ut q =
        (Inr \<lparr> status = 400, body = Sent ''Missing or empty ?name= parameter'' \<rparr>, ut)"
    by (rule empty_name_upload)
next
  show "snd (schedule_server st q) = st" by (rule schedule_server_state)
next
  assume a: "trim (query_text q) \<noteq> [] \<and> scheduleData_server st = []"
  then have "nameQuery_of q \<noteq> []" by (simp add: nameQuery_empty_iff)
  with a show "schedule_server st q = (Inr \<lparr> status = 404, body = Sent (not_found_server q) \<rparr>, st)"
    by (simp add: schedule_server_def Let_def matchingRows_def)
next
  assume "trim (query_text q) \<noteq> []"
  then show "\<exists>resp ut'. schedule_upload fs now ut q = (Inr resp, ut') \<and>
         (if file_changed fs ut
          then loadSchedule_upload fs now
                 (ut\<lparr> console_upload := console_upload ut @ [Log_file_changed] \<rparr>) =
               Inr (hot_reload fs now ut)
          else hot_reload fs now ut = ut) \<and>
         (if scheduleData_upload (hot_reload fs now ut) = []
          then loadSchedule_upload fs now (hot_reload fs now ut) = Inr ut' \<and>
               (scheduleData_upload ut' = [] \<longrightarrow>
                  resp = \<lparr> status = 404,
                           body = Sent ''No schedule data available yet. Please upload an Excel file first.'' \<rparr>)
          else ut' = hot_reload fs now ut) \<and>
         load_attempts (console_upload ut') =
           load_attempts (console_upload ut) +
             (if file_changed fs ut then 1 else 0) +
             (if scheduleData_upload (hot_reload fs now ut) = [] then 1 else 0)"
    by (rule schedule_upload_reload_steps)
qed

theorem reload_on_empty_table_witness:
  "(\<exists>resp ut'. schedule_upload (disk_with FILE_PATH 3 (Inr (take 1 sample_sheet))) 9 stale_state (Some ''bob'')
                 = (Inr resp, ut') \<and>
               load_attempts (console_upload ut') = 1 \<and> status resp = 404)
   \<and>
   schedule_upload Map.empty 9 stale_state (Some ''  '') =
     (Inr \<lparr> status = 400, body = Sent ''Missing or empty ?name= parameter'' \<rparr>, stale_state)
   \<and>
   schedule_server empty_server_state (Some ''bob'') =
     (Inr \<lparr> status = 404, body = Sent (not_found_server (Some ''bob'')) \<rparr>, empty_server_state)
   \<and>
   (\<exists>resp ut'. schedule_upload (disk_with FILE_PATH 8 (Inr sample_sheet)) 9 stale_state (Some ''bob'')
                 = (Inr resp, ut') \<and>
               ut' = hot_reload (disk_with FILE_PATH 8 (Inr sample_sheet)) 9 stale_state \<and>
               console_upload ut' = [Log_file_changed, Log_schedule_loaded 2 9] \<and>
               load_attempts (console_upload ut') = 1)"
proof -
  let ?fs = "disk_with FILE_PATH 3 (Inr (take 1 sample_sheet))"
  let ?gs = "disk_with FILE_PATH 8 (Inr sample_sheet)"
  have h1: "trim (query_text (Some ''bob'')) \<noteq> [] \<and> scheduleData_upload stale_state = []"
    by code_simp
  have h2: "trim (query_text (Some ''  '')) = []"
    by code_simp
  have h3: "trim (query_text (Some ''bob'')) \<noteq> [] \<and> scheduleData_server empty_server_state = []"
    by code_simp
  have nc: "\<not> file_changed ?fs stale_state"
    by code_simp
  have l: "load_attempts (console_upload stale_state) = 0"
    by code_simp
  have s: "scheduleData_upload (snd (schedule_upload ?fs 9 stale_state (Some ''bob''))) = []"
    by code_simp
  from reload_on_empty_table [where q = "Some ''bob''" and ut = stale_state and fs = ?fs
         and now = 9 and st = empty_server_state] h1
  obtain resp ut' where u: "schedule_upload ?fs 9 stale_state (Some ''bob'') = (Inr resp, ut')"
    and a: "load_attempts (console_upload ut') =
           load_attempts (console_upload stale_state) +
             (if file_changed ?fs stale_state \<and> scheduleData_upload ut' = [] then 2 else 1)"
    and r: "scheduleData_upload ut' = [] \<longrightarrow>
            resp = \<lparr> status = 404,
                     body = Sent ''No schedule data available yet. Please upload an Excel file first.'' \<rparr>"
    by blast
  from u s have "scheduleData_upload ut' = []" by simp
  with r have "status resp = 404" by simp
  moreover from a nc l have "load_attempts (console_upload ut') = 1" by simp
  ultimately have 1: "\<exists>resp ut'. schedule_upload ?fs 9 stale_state (Some ''bob'') = (Inr resp, ut') \<and>
               load_attempts (console_upload ut') = 1 \<and> status resp = 404"
    using u by blast
  from reload_on_empty_table [where q = "Some ''  ''" and ut = stale_state and fs = Map.empty
         and now = 9 and st = empty_server_state] h2
  have 2: "schedule_upload Map.empty 9 stale_state (Some ''  '') =
     (Inr \<lparr> status = 400, body = Sent ''Missing or empty ?name= parameter'' \<rparr>, stale_state)"
    by blast
  from reload_on_empty_table [where q = "Some ''bob''" and ut = stale_state and fs = ?fs
         and now = 9 and st = empty_server_state] h3
  have 3: "schedule_server empty_server_state (Some ''bob'') =
     (Inr \<lparr> status = 404, body = Sent (not_found_server (Some ''bob'')) \<rparr>, empty_server_state)"
    by blast
  have fc: "file_changed ?gs stale_state"
    by code_simp
  have ne: "scheduleData_upload (hot_reload ?gs 9 stale_state) \<noteq> []"
    by code_simp
  have co: "console_upload (hot_reload ?gs 9 stale_state) = [Log_file_changed, Log_schedule_loaded 2 9]"
    by code_simp
  from reload_on_empty_table [where q = "Some ''bob''" and ut = stale_state and fs = ?gs
         and now = 9 and st = empty_server_state] h1
  obtain resp2 ut2 where u2: "schedule_upload ?gs 9 stale_state (Some ''bob'') = (Inr resp2, ut2)"
    and e2: "if scheduleData_upload (hot_reload ?gs 9 stale_state) = []
          then loadSchedule_upload ?gs 9 (hot_reload ?gs 9 stale_state) = Inr ut2 \<and>
               (scheduleData_upload ut2 = [] \<longrightarrow>
                  resp2 = \<lparr> status = 404,
                           body = Sent ''No schedule data available yet. Please upload an Excel file first.'' \<rparr>)
          else ut2 = hot_reload ?gs 9 stale_state"
    and a2: "load_attempts (console_upload ut2) =
           load_attempts (console_upload stale_state) +
             (if file_changed ?gs stale_state then 1 else 0) +
             (if scheduleData_upload (hot_reload ?gs 9 stale_state) = [] then 1 else 0)"
    by blast
  from e2 ne have "ut2 = hot_reload ?gs 9 stale_state" by simp
  moreover from a2 fc ne l have "load_attempts (console_upload ut2) = 1" by simp
  ultimately have 4: "\<exists>resp ut'. schedule_upload ?gs 9 stale_state (Some ''bob'') = (Inr resp, ut') \<and>
               ut' = hot_reload ?gs 9 stale_state \<and>
               console_upload ut' = [Log_file_changed, Log_schedule_loaded 2 9] \<and>
               load_attempts (console_upload ut') = 1"
    using u2 co by auto
  from 1 2 3 4 show ?thesis by blast
qed

text \<open>The claim as stated fails in both scripts. In \<^verbatim>\<open>server.js\<close> an empty table and the
  name \<^verbatim>\<open>bob\<close> give a 404 with no load attempt at all. In \<^verbatim>\<open>part_000\<close>, an empty table, a
  load time of 7 and a header-only file modified at 8 give a 404 after two load attempts:
  the hot reload and the reload of the emptiness check.\<close>

theorem reload_exactly_once_fails:
  "\<not> (\<forall>st q resp st'.
        scheduleData_server st = [] \<and> schedule_server st q = (Inr resp, st') \<and> status resp = 404 \<longrightarrow>
        load_attempts (console_server st') = load_attempts (console_server st) + 1)
   \<and>
   \<not> (\<forall>fs now ut q resp ut'.
        scheduleData_upload ut = [] \<and> schedule_upload fs now ut q = (Inr resp, ut') \<and> status resp = 404 \<longrightarrow>
        load_attempts (console_upload ut') = load_attempts (console_upload ut) + 1)"
proof
  show "\<not> (\<forall>st q resp st'.
        scheduleData_server st = [] \<and> schedule_server st q = (Inr resp, st') \<and> status resp = 404 \<longrightarrow>
        load_attempts (console_server st') = load_attempts (console_server st) + 1)"
  proof
    assume a: "\<forall>st q resp st'.
        scheduleData_server st = [] \<and> schedule_server st q = (Inr resp, st') \<and> status resp = 404 \<longrightarrow>
        load_attempts (console_server st') = load_attempts (console_server st) + 1"
    have "scheduleData_server empty_server_state = [] \<and>
          schedule_server empty_server_state (Some ''bob'') =
            (Inr \<lparr> status = 404, body = Sent (not_found_server (Some ''bob'')) \<rparr>, empty_server_state) \<and>
          status \<lparr> status = 404, body = Sent (not_found_server (Some ''bob'')) \<rparr> = 404"
      by code_simp
    with a have "load_attempts (console_server empty_server_state) =
                 load_attempts (console_server empty_server_state) + 1"
      by blast
    then show False by simp
  qed
next
  show "\<not> (\<forall>fs now ut q resp ut'.
        scheduleData_upload ut = [] \<and> schedule_upload fs now ut q = (Inr resp, ut') \<and> status resp = 404 \<longrightarrow>
        load_attempts (console_upload ut') = load_attempts (console_upload ut) + 1)"
  proof
    assume a: "\<forall>fs now ut q resp ut'.
        scheduleData_upload ut = [] \<and> schedule_upload fs now ut q = (Inr resp, ut') \<and> status resp = 404 \<longrightarrow>
        load_attempts (console_upload ut') = load_attempts (console_upload ut) + 1"
    let ?fs = "disk_with FILE_PATH 8 (Inr (take 1 sample_sheet))"
    let ?resp = "\<lparr> status = 404,
                   body = Sent ''No schedule data available yet. Please upload an Excel file first.'' \<rparr>"
    let ?ut' = "\<lparr> scheduleData_upload = [], lastLoadTime = Some 7,
                  console_upload = [Log_file_changed, Log_empty_or_headers, Log_empty_or_headers] \<rparr>"
    have "scheduleData_upload stale_state = [] \<and>
          schedule_upload ?fs 9 stale_state (Some ''bob'') = (Inr ?resp, ?ut') \<and>
          status ?resp = 404"
      by code_simp
    with a have "load_attempts (console_upload ?ut') = load_attempts (console_upload stale_state) + 1"
      by blast
    moreover have "load_attempts (console_upload ?ut') = 2 \<and> load_attempts (console_upload stale_state) = 0"
      by code_simp
    ultimately show False by simp
  qed
qed

section \<open>Uploads\<close>

lemma upload_single_accepts:
  "mimetype f \<in> set allowed \<Longrightarrow> size_bytes f \<le> fileSize \<Longrightarrow>
   upload_single fs now (Some f) =
     (Inr (Some f), fs(FILE_PATH \<mapsto> \<lparr> mtime = now, parsed = data f \<rparr>))"
  by (simp add: upload_single_def fileFilter_def FILE_PATH_def destination_def filename_def Let_def)

lemma upload_single_wrong_type:
  "mimetype f \<notin> set allowed \<Longrightarrow>
   upload_single fs now (Some f) = (Inl (Error ''Only .xlsx and .xls files are allowed!''), fs)"
  by (simp add: upload_single_def fileFilter_def)

lemma upload_single_too_large:
  "mimetype f \<in> set allowed \<Longrightarrow> fileSize < size_bytes f \<Longrightarrow>
   upload_single fs now (Some f) = (Inl (Error ''File too large''), fs(FILE_PATH := None))"
  by (simp add: upload_single_def fileFilter_def FILE_PATH_def destination_def filename_def Let_def)

text \<open>What a load leaves in the state, read off the file it found: the table is made of the
  data rows of that file, the load time is set only by a load that found data rows, and
  one line is added to the console.\<close>

lemma loadSchedule_upload_result:
  assumes "fs FILE_PATH = Some g" "loadSchedule_upload fs now st = Inr st'"
  shows "scheduleData_upload st' =
           (case parsed g of Inl e \<Rightarrow> [] | Inr rows \<Rightarrow> map to_row (drop 1 rows)) \<and>
         lastLoadTime st' =
           (case parsed g of
              Inl e \<Rightarrow> lastLoadTime st
            | Inr rows \<Rightarrow> if 1 < length rows then Some now else lastLoadTime st) \<and>
         console_upload st' =
           console_upload st @
             [case parsed g of
                Inl e \<Rightarrow> Error_failed_to_load e
              | Inr rows \<Rightarrow> if 1 < length rows then Log_schedule_loaded (length rows - 1) now
                           else Log_empty_or_headers]"
proof (cases "parsed g")
  case (Inl e)
  with assms show ?thesis by (auto simp: loadSchedule_upload_unreadable)
next
  case (Inr rows)
  show ?thesis
  proof (cases "1 < length rows")
    case True
    with Inr assms show ?thesis by (auto simp: loadSchedule_upload_rows)
  next
    case False
    then have "length rows \<le> 1" by simp
    with Inr assms show ?thesis by (auto simp: loadSchedule_upload_short)
  qed
qed

text \<open>
  Claim C9. \<^verbatim>\<open>POST /admin/upload\<close> answers 200 exactly for a request that carries a file
  whose declared content type is one of the two Excel types and whose size is at most
  10 MiB (10485760 bytes). Such a file is written to \<^verbatim>\<open>uploads/schedule.xlsx\<close>, whatever its
  own name, and no other path of the disk changes; \<^verbatim>\<open>loadSchedule\<close> runs on the new disk
  before the answer, so the table after the request is made of the data rows of the
  uploaded file (empty when the file is unreadable or has no data row), whatever the table
  was before, and the answer reports the number of its entries. Every other request gets
  status 400 with a reason (no file, a wrong type, or a file too large) and leaves the
  table as it was.
\<close>

theorem upload_acceptance:
  "(case req of
      None \<Rightarrow>
        admin_upload fs now st req =
          (Inr \<lparr> status = 400, body = Json_error ''No file uploaded.'' \<rparr>, st, fs)
    | Some f \<Rightarrow>
        if mimetype f \<noteq> ''application/vnd.openxmlformats-officedocument.spreadsheetml.sheet'' \<and>
           mimetype f \<noteq> ''application/vnd.ms-excel''
        then admin_upload fs now st req =
               (Inr \<lparr> status = 400, body = Json_error ''Only .xlsx and .xls files are allowed!'' \<rparr>,
                st, fs)
        else if 10 * 1024 * 1024 < size_bytes f
        then \<exists>fs'. admin_upload fs now st req =
               (Inr \<lparr> status = 400, body = Json_error ''File too large'' \<rparr>, st, fs')
        else \<exists>st' fs'.
               admin_upload fs now st req =
                 (Inr \<lparr> status = 200,
                        body = Json_uploaded ''Schedule uploaded and updated successfully!''
                                 (length (scheduleData_upload st')) now \<rparr>,
                  st', fs') \<and>
               fs' ''uploads/schedule.xlsx'' = Some \<lparr> mtime = now, parsed = data f \<rparr> \<and>
               (\<forall>p. p \<noteq> ''uploads/schedule.xlsx'' \<longrightarrow> fs' p = fs p) \<and>
               loadSchedule_upload fs' now st = Inr st' \<and>
               scheduleData_upload st' =
                 (case data f of Inl e \<Rightarrow> [] | Inr rows \<Rightarrow> map to_row (drop 1 rows)) \<and>
               lastLoadTime st' =
                 (case data f of
                    Inl e \<Rightarrow> lastLoadTime st
                  | Inr rows \<Rightarrow> if 1 < length rows then Some now else lastLoadTime st) \<and>
               console_upload st' =
                 console_upload st @
                   [case data f of
                      Inl e \<Rightarrow> Error_failed_to_load e
                    | Inr rows \<Rightarrow> if 1 < length rows then Log_schedule_loaded (length rows - 1) now
                                 else Log_empty_or_headers])"
proof (cases req)
  case None
  then show ?thesis by (simp add: admin_upload_def upload_single_def)
next
  case (Some f)
  have p: "FILE_PATH = ''uploads/schedule.xlsx''"
    by (simp add: FILE_PATH_def UPLOAD_DIR_def path_join_def)
  have al: "mimetype f \<in> set allowed \<longleftrightarrow>
            \<not> (mimetype f \<noteq> ''application/vnd.openxmlformats-officedocument.spreadsheetml.sheet'' \<and>
               mimetype f \<noteq> ''application/vnd.ms-excel'')"
    by (auto simp: allowed_def)
  have sz: "fileSize = 10 * 1024 * 1024" by (simp add: fileSize_def)
  show ?thesis
  proof (cases "mimetype f \<in> set allowed")
    case False
    with Some al show ?thesis
      by (simp add: admin_upload_def upload_single_wrong_type)
  next
    case True
    show ?thesis
    proof (cases "fileSize < size_bytes f")
      case big: True
      with True Some al sz show ?thesis
        by (simp add: admin_upload_def upload_single_too_large)
    next
      case small: False
      define g where "g = \<lparr> mtime = now, parsed = data f \<rparr>"
      define fs' where "fs' = fs(FILE_PATH \<mapsto> g)"
      obtain st' where l: "loadSchedule_upload fs' now st = Inr st'"
        using loadSchedule_upload_returns by blast
      have "fs' FILE_PATH = Some g" by (simp add: fs'_def)
      from loadSchedule_upload_result [OF this l]
      have t: "scheduleData_upload st' =
                 (case data f of Inl e \<Rightarrow> [] | Inr rows \<Rightarrow> map to_row (drop 1 rows)) \<and>
               lastLoadTime st' =
                 (case data f of
                    Inl e \<Rightarrow> lastLoadTime st
                  | Inr rows \<Rightarrow> if 1 < length rows then Some now else lastLoadTime st) \<and>
               console_upload st' =
                 console_upload st @
                   [case data f of
                      Inl e \<Rightarrow> Error_failed_to_load e
                    | Inr rows \<Rightarrow> if 1 < length rows then Log_schedule_loaded (length rows - 1) now
                                 else Log_empty_or_headers]"
        by (simp add: g_def)
      from True small have u: "upload_single fs now (Some f) = (Inr (Some f), fs')"
        unfolding fs'_def g_def by (simp add: upload_single_accepts)
      have "admin_upload fs now st req =
                 (Inr \<lparr> status = 200,
                        body = Json_uploaded ''Schedule uploaded and updated successfully!''
                                 (length (scheduleData_upload st')) now \<rparr>,
                  st', fs')"
        using Some u l by (simp add: admin_upload_def)
      moreover have "fs' ''uploads/schedule.xlsx'' = Some \<lparr> mtime = now, parsed = data f \<rparr>"
        by (simp add: fs'_def g_def p)
      moreover have "\<forall>p. p \<noteq> ''uploads/schedule.xlsx'' \<longrightarrow> fs' p = fs p"
        by (simp add: fs'_def p)
      ultimately have "\<exists>st' fs'.
               admin_upload fs now st req =
                 (Inr \<lparr> status = 200,
                        body = Json_uploaded ''Schedule uploaded and updated successfully!''
                                 (length (scheduleData_upload st')) now \<rparr>,
                  st', fs') \<and>
               fs' ''uploads/schedule.xlsx'' = Some \<lparr> mtime = now, parsed = data f \<rparr> \<and>
               (\<forall>p. p \<noteq> ''uploads/schedule.xlsx'' \<longrightarrow> fs' p = fs p) \<and>
               loadSchedule_upload fs' now st = Inr st' \<and>
               scheduleData_upload st' =
                 (case data f of Inl e \<Rightarrow> [] | Inr rows \<Rightarrow> map to_row (drop 1 rows)) \<and>
               lastLoadTime st' =
                 (case data f of
                    Inl e \<Rightarrow> lastLoadTime st
                  | Inr rows \<Rightarrow> if 1 < length rows then Some now else lastLoadTime st) \<and>
               console_upload st' =
                 console_upload st @
                   [case data f of
                      Inl e \<Rightarrow> Error_failed_to_load e
                    | Inr rows \<Rightarrow> if 1 < length rows then Log_schedule_loaded (length rows - 1) now
                                 else Log_empty_or_headers]"
        using l t by blast
      moreover have c1: "\<not> (mimetype f \<noteq> ''application/vnd.openxmlformats-officedocument.spreadsheetml.sheet'' \<and>
               mimetype f \<noteq> ''application/vnd.ms-excel'')"
        using True al by blast
      moreover have c2: "\<not> (10 * 1024 * 1024 < size_bytes f)"
        using small sz by simp
      ultimately show ?thesis
        unfolding Some by (simp only: option.case if_False)
    qed
  qed
qed

theorem upload_acceptance_witness:
  "(\<exists>st' fs'.
      admin_upload Map.empty 9 upload_state0 (Some sample_upload) =
        (Inr \<lparr> status = 200,
               body = Json_uploaded ''Schedule uploaded and updated successfully!'' 2 9 \<rparr>,
         st', fs') \<and>
      fs' ''uploads/schedule.xlsx'' = Some \<lparr> mtime = 9, parsed = Inr sample_sheet \<rparr> \<and>
      fs' ''uploads/rota.xlsx'' = None \<and>
      loadSchedule_upload fs' 9 upload_state0 = Inr st' \<and>
      scheduleData_upload upload_state0 = [bob_row] \<and>
      scheduleData_upload st' = [alice_row, bob_row] \<and>
      lastLoadTime st' = Some 9 \<and>
      console_upload st' = [Log_schedule_loaded 2 9])
   \<and>
   admin_upload Map.empty 9 upload_state0 (Some (sample_upload\<lparr> mimetype := ''text/csv'' \<rparr>)) =
     (Inr \<lparr> status = 400, body = Json_error ''Only .xlsx and .xls files are allowed!'' \<rparr>,
      upload_state0, Map.empty)
   \<and>
   (\<exists>fs'. admin_upload Map.empty 9 upload_state0 (Some (sample_upload\<lparr> size_bytes := 10485761 \<rparr>)) =
     (Inr \<lparr> status = 400, body = Json_error ''File too large'' \<rparr>, upload_state0, fs'))"
proof -
  let ?A = "''application/vnd.openxmlformats-officedocument.spreadsheetml.sheet''"
  let ?B = "''application/vnd.ms-excel''"
  let ?csv = "sample_upload\<lparr> mimetype := ''text/csv'' \<rparr>"
  let ?big = "sample_upload\<lparr> size_bytes := 10485761 \<rparr>"
  have a1: "\<not> (mimetype sample_upload \<noteq> ?A \<and> mimetype sample_upload \<noteq> ?B)"
    by (simp add: sample_upload_def)
  have a2: "\<not> (10 * 1024 * 1024 < size_bytes sample_upload)"
    by (simp add: sample_upload_def)
  have d: "data sample_upload = Inr sample_sheet"
    by (simp add: sample_upload_def)
  have n: "1 < length sample_sheet" "length sample_sheet - 1 = 2"
    by (simp_all add: sample_sheet_def)
  have tb: "map to_row (drop 1 sample_sheet) = [alice_row, bob_row]"
    using sample_table by (simp add: sample_sheet_def)
  have s0: "scheduleData_upload upload_state0 = [bob_row]" "console_upload upload_state0 = []"
    by (simp_all add: upload_state0_def)
  from upload_acceptance [where req = "Some sample_upload" and fs = Map.empty and now = 9
         and st = upload_state0]
  have "\<exists>st' fs'.
      admin_upload Map.empty 9 upload_state0 (Some sample_upload) =
        (Inr \<lparr> status = 200,
               body = Json_uploaded ''Schedule uploaded and updated successfully!''
                        (length (scheduleData_upload st')) 9 \<rparr>,
         st', fs') \<and>
      fs' ''uploads/schedule.xlsx'' = Some \<lparr> mtime = 9, parsed = data sample_upload \<rparr> \<and>
      (\<forall>p. p \<noteq> ''uploads/schedule.xlsx'' \<longrightarrow> fs' p = Map.empty p) \<and>
      loadSchedule_upload fs' 9 upload_state0 = Inr st' \<and>
      scheduleData_upload st' =
        (case data sample_upload of Inl e \<Rightarrow> [] | Inr rows \<Rightarrow> map to_row (drop 1 rows)) \<and>
      lastLoadTime st' =
        (case data sample_upload of
           Inl e \<Rightarrow> lastLoadTime upload_state0
         | Inr rows \<Rightarrow> if 1 < length rows then Some 9 else lastLoadTime upload_state0) \<and>
      console_upload st' =
        console_upload upload_state0 @
          [case data sample_upload of
             Inl e \<Rightarrow> Error_failed_to_load e
           | Inr rows \<Rightarrow> if 1 < length rows then Log_schedule_loaded (length rows - 1) 9
                        else Log_empty_or_headers]"
    by (simp only: option.case a1 a2 if_False)
  then obtain st' fs' where
    r: "admin_upload Map.empty 9 upload_state0 (Some sample_upload) =
        (Inr \<lparr> status = 200,
               body = Json_uploaded ''Schedule uploaded and updated successfully!''
                        (length (scheduleData_upload st')) 9 \<rparr>,
         st', fs')"
    and w: "fs' ''uploads/schedule.xlsx'' = Some \<lparr> mtime = 9, parsed = data sample_upload \<rparr>"
    and f: "\<forall>p. p \<noteq> ''uploads/schedule.xlsx'' \<longrightarrow> fs' p = Map.empty p"
    and l: "loadSchedule_upload fs' 9 upload_state0 = Inr st'"
    and t: "scheduleData_upload st' =
        (case data sample_upload of Inl e \<Rightarrow> [] | Inr rows \<Rightarrow> map to_row (drop 1 rows))"
    and lt: "lastLoadTime st' =
        (case data sample_upload of
           Inl e \<Rightarrow> lastLoadTime upload_state0
         | Inr rows \<Rightarrow> if 1 < length rows then Some 9 else lastLoadTime upload_state0)"
    and c: "console_upload st' =
        console_upload upload_state0 @
          [case data sample_upload of
             Inl e \<Rightarrow> Error_failed_to_load e
           | Inr rows \<Rightarrow> if 1 < length rows then Log_schedule_loaded (length rows - 1) 9
                        else Log_empty_or_headers]"
    by blast
  from t d tb have t': "scheduleData_upload st' = [alice_row, bob_row]" by simp
  from lt d n have lt': "lastLoadTime st' = Some 9" by simp
  from c d n s0 have c': "console_upload st' = [Log_schedule_loaded 2 9]" by simp
  have "''uploads/rota.xlsx'' \<noteq> ''uploads/schedule.xlsx''" by simp
  with f have o: "fs' ''uploads/rota.xlsx'' = None" by simp
  from r t' have r': "admin_upload Map.empty 9 upload_state0 (Some sample_upload) =
        (Inr \<lparr> status = 200,
               body = Json_uploaded ''Schedule uploaded and updated successfully!'' 2 9 \<rparr>,
         st', fs')"
    by simp
  from w d have w': "fs' ''uploads/schedule.xlsx'' = Some \<lparr> mtime = 9, parsed = Inr sample_sheet \<rparr>"
    by simp
  from r' w' o l s0(1) t' lt' c' have 1: "\<exists>st' fs'.
      admin_upload Map.empty 9 upload_state0 (Some sample_upload) =
        (Inr \<lparr> status = 200,
               body = Json_uploaded ''Schedule uploaded and updated successfully!'' 2 9 \<rparr>,
         st', fs') \<and>
      fs' ''uploads/schedule.xlsx'' = Some \<lparr> mtime = 9, parsed = Inr sample_sheet \<rparr> \<and>
      fs' ''uploads/rota.xlsx'' = None \<and>
      loadSchedule_upload fs' 9 upload_state0 = Inr st' \<and>
      scheduleData_upload upload_state0 = [bob_row] \<and>
      scheduleData_upload st' = [alice_row, bob_row] \<and>
      lastLoadTime st' = Some 9 \<and>
      console_upload st' = [Log_schedule_loaded 2 9]"
    by blast
  have b1: "mimetype ?csv \<noteq> ?A \<and> mimetype ?csv \<noteq> ?B"
    by simp
  from upload_acceptance [where req = "Some ?csv" and fs = Map.empty and now = 9
         and st = upload_state0]
  have 2: "admin_upload Map.empty 9 upload_state0 (Some ?csv) =
     (Inr \<lparr> status = 400, body = Json_error ''Only .xlsx and .xls files are allowed!'' \<rparr>,
      upload_state0, Map.empty)"
    by (simp only: option.case b1 if_True simp_thms)
  have c1: "\<not> (mimetype ?big \<noteq> ?A \<and> mimetype ?big \<noteq> ?B)"
    by (simp add: sample_upload_def)
  have c2: "10 * 1024 * 1024 < size_bytes ?big"
    by simp
  from upload_acceptance [where req = "Some ?big" and fs = Map.empty and now = 9
         and st = upload_state0]
  have 3: "\<exists>fs'. admin_upload Map.empty 9 upload_state0 (Some ?big) =
     (Inr \<lparr> status = 400, body = Json_error ''File too large'' \<rparr>, upload_state0, fs')"
    by (simp only: option.case c1 c2 if_False if_True simp_thms)
  from 1 2 3 show ?thesis by blast
qed

end
